theory Spec2Isabelle
  imports Main
begin

section \<open>Errors\<close>

text \<open>
  Every \<^verbatim>\<open>throw\<close> of the sources, and every exception a JavaScript primitive raises on a
  path the sources take, is a value of this type.
\<close>

datatype error =
    InvalidConfig        \<comment> \<open>"maxWaitMs must be greater than or equal to idleMs"\<close>
  | KeyConflict string   \<comment> \<open>"URL parameter key conflict detected"\<close>
  | ExpectedMultiple     \<comment> \<open>"Expected multiple values"\<close>
  | TypeError            \<comment> \<open>property access on undefined, call of a non-function, write to a primitive\<close>
  | URIError             \<comment> \<open>decodeURIComponent on a malformed escape\<close>
  | SyntaxError          \<comment> \<open>JSON.parse on malformed text\<close>
  | HandlerError string  \<comment> \<open>anything a user-supplied handler function throws\<close>
  | OutsideModel         \<comment> \<open>no exception: the result is a value the model has no term for\<close>

section \<open>The debounce scheduler (debounce.ts)\<close>

record Config =
  idleMs :: int
  maxWaitMs :: int

text \<open>
  \<^verbatim>\<open>window.setTimeout\<close> takes its delay as a 32-bit signed integer and treats a negative
  delay as zero.
\<close>

definition to_int32 :: "int \<Rightarrow> int" where
  "to_int32 x = (x + 2147483648) mod 4294967296 - 2147483648"

definition timeout_delay :: "int \<Rightarrow> int" where
  "timeout_delay ms = max 0 (to_int32 ms)"

text \<open>
  The state of one \<^verbatim>\<open>MappedDebouncer\<close> together with the part of the host's timer table it
  owns. A pending timer is (handle, due time, key): every timer the class arms runs
  \<^verbatim>\<open>flush.bind(this, key)\<close>. \<open>clock\<close> is the current time in milliseconds.
\<close>

record ('k, 'cb) MappedDebouncer =
  clock :: int
  nextHandle :: nat
  pending :: "(nat \<times> int \<times> 'k) list"
  maxTimers :: "'k \<rightharpoonup> nat"
  idleTimers :: "'k \<rightharpoonup> nat"
  callbacks :: "'k \<rightharpoonup> 'cb"
  opts :: Config

definition ValidateConfig :: "Config \<Rightarrow> error + unit" where
  "ValidateConfig config =
     (if maxWaitMs config < idleMs config then Inl InvalidConfig else Inr ())"

definition new_MappedDebouncer :: "Config \<Rightarrow> error + ('k, 'cb) MappedDebouncer" where
  "new_MappedDebouncer config =
     (case ValidateConfig config of
        Inl e \<Rightarrow> Inl e
      | Inr _ \<Rightarrow> Inr \<lparr> clock = 0, nextHandle = 0, pending = [], maxTimers = Map.empty,
                       idleTimers = Map.empty, callbacks = Map.empty, opts = config \<rparr>)"

definition clearTimeout ::
  "nat option \<Rightarrow> ('k, 'cb) MappedDebouncer \<Rightarrow> ('k, 'cb) MappedDebouncer" where
  "clearTimeout h d =
     (case h of
        None \<Rightarrow> d
      | Some n \<Rightarrow> d\<lparr> pending := filter (\<lambda>(m, _, _). m \<noteq> n) (pending d) \<rparr>)"

definition setTimeout ::
  "'k \<Rightarrow> int \<Rightarrow> ('k, 'cb) MappedDebouncer \<Rightarrow> nat \<times> ('k, 'cb) MappedDebouncer" where
  "setTimeout key ms d =
     (nextHandle d,
      d\<lparr> pending := pending d @ [(nextHandle d, clock d + timeout_delay ms, key)],
         nextHandle := Suc (nextHandle d) \<rparr>)"

definition clear :: "'k \<Rightarrow> ('k, 'cb) MappedDebouncer \<Rightarrow> ('k, 'cb) MappedDebouncer" where
  "clear key d =
     (let d1 = clearTimeout (idleTimers d key) d;
          d2 = clearTimeout (maxTimers d1 key) d1
      in d2\<lparr> idleTimers := (idleTimers d2)(key := None),
              maxTimers := (maxTimers d2)(key := None),
              callbacks := (callbacks d2)(key := None) \<rparr>)"

definition enqueue ::
  "'k \<Rightarrow> 'cb \<Rightarrow> Config option \<Rightarrow> ('k, 'cb) MappedDebouncer
     \<Rightarrow> error + ('k, 'cb) MappedDebouncer" where
  "enqueue key callback config d =
     (case (case config of None \<Rightarrow> Inr () | Some c \<Rightarrow> ValidateConfig c) of
        Inl e \<Rightarrow> Inl e
      | Inr _ \<Rightarrow>
          (let d1 = clear key d;
               d2 = d1\<lparr> callbacks := (callbacks d1)(key \<mapsto> callback) \<rparr>;
               idle = (case config of None \<Rightarrow> idleMs (opts d) | Some c \<Rightarrow> idleMs c);
               maxWait = (case config of None \<Rightarrow> maxWaitMs (opts d) | Some c \<Rightarrow> maxWaitMs c);
               (hi, d3) = setTimeout key idle d2;
               d4 = d3\<lparr> idleTimers := (idleTimers d3)(key \<mapsto> hi) \<rparr>;
               (hm, d5) = setTimeout key maxWait d4
           in Inr (d5\<lparr> maxTimers := (maxTimers d5)(key \<mapsto> hm) \<rparr>)))"

text \<open>
  \<^verbatim>\<open>flush\<close> invokes the stored callback, if any, and clears the key. The callback is
  returned to the caller, who runs it.
\<close>

definition flush ::
  "'k \<Rightarrow> ('k, 'cb) MappedDebouncer \<Rightarrow> 'cb option \<times> ('k, 'cb) MappedDebouncer" where
  "flush key d = (callbacks d key, clear key d)"

subsection \<open>The host's timer loop\<close>

text \<open>
  Among the pending timers due at or before \<open>t\<close>, the host fires the one with the least
  due time, and among equals the one armed first.
\<close>

fun earliest :: "(nat \<times> int \<times> 'k) list \<Rightarrow> (nat \<times> int \<times> 'k) option" where
  "earliest [] = None"
| "earliest (x # xs) =
     (case earliest xs of
        None \<Rightarrow> Some x
      | Some y \<Rightarrow> if fst (snd y) < fst (snd x) then Some y else Some x)"

definition next_due :: "int \<Rightarrow> ('k, 'cb) MappedDebouncer \<Rightarrow> (nat \<times> int \<times> 'k) option" where
  "next_due t d = earliest (filter (\<lambda>(_, due, _). due \<le> t) (pending d))"

definition fire ::
  "nat \<times> int \<times> 'k \<Rightarrow> ('k, 'cb) MappedDebouncer \<Rightarrow> 'cb option \<times> ('k, 'cb) MappedDebouncer" where
  "fire tm d =
     (case tm of (h, due, key) \<Rightarrow>
        flush key (d\<lparr> clock := max (clock d) due,
                      pending := filter (\<lambda>(m, _, _). m \<noteq> h) (pending d) \<rparr>))"

lemma earliest_mem: "earliest xs = Some x \<Longrightarrow> x \<in> set xs"
  by (induction xs arbitrary: x) (auto split: option.splits if_splits)

lemma next_due_mem: "next_due t d = Some tm \<Longrightarrow> tm \<in> set (pending d)"
  unfolding next_due_def by (drule earliest_mem) simp

lemma length_filter_handle:
  "(h, due, key) \<in> set xs \<Longrightarrow> length (filter (\<lambda>(m, _, _). m \<noteq> h) xs) < length xs"
  by (induction xs) (auto simp: less_Suc_eq_le)

lemma pending_clearTimeout_le: "length (pending (clearTimeout h d)) \<le> length (pending d)"
  by (cases h) (simp_all add: clearTimeout_def)

lemma pending_clear_le: "length (pending (clear key d)) \<le> length (pending d)"
  unfolding clear_def Let_def
  using pending_clearTimeout_le [of "maxTimers (clearTimeout (idleTimers d key) d) key"
          "clearTimeout (idleTimers d key) d"]
        pending_clearTimeout_le [of "idleTimers d key" d]
  by simp

lemma pending_fire_less:
  assumes "tm \<in> set (pending d)"
  shows "length (pending (snd (fire tm d))) < length (pending d)"
proof -
  obtain h due key where tm: "tm = (h, due, key)" by (cases tm)
  let ?d1 = "d\<lparr> clock := max (clock d) due,
                 pending := filter (\<lambda>(m, _, _). m \<noteq> h) (pending d) \<rparr>"
  have "length (pending (clear key ?d1)) \<le> length (pending ?d1)"
    by (rule pending_clear_le)
  moreover have "length (pending ?d1) < length (pending d)"
    using assms tm length_filter_handle [of h due key "pending d"] by simp
  ultimately show ?thesis by (simp add: tm fire_def flush_def)
qed

text \<open>
  Let time pass until \<open>t\<close>: fire every timer that falls due, in order, and collect the
  callbacks invoked, each with the time of its invocation.
\<close>

definition invoked_at :: "int \<Rightarrow> 'cb option \<Rightarrow> (int \<times> 'cb) list" where
  "invoked_at t cb = (case cb of None \<Rightarrow> [] | Some c \<Rightarrow> [(t, c)])"

function run_until ::
  "int \<Rightarrow> (int \<times> 'cb) list \<times> ('k, 'cb) MappedDebouncer
     \<Rightarrow> (int \<times> 'cb) list \<times> ('k, 'cb) MappedDebouncer" where
  "run_until t (log, d) =
     (case next_due t d of
        None \<Rightarrow> (log, d\<lparr> clock := max (clock d) t \<rparr>)
      | Some tm \<Rightarrow>
          run_until t (log @ invoked_at (clock (snd (fire tm d))) (fst (fire tm d)),
                       snd (fire tm d)))"
  by pat_completeness auto
termination
proof (relation "measure (\<lambda>(t, log, d). length (pending d))")
  show "wf (measure (\<lambda>(t, log, d). length (pending d)))" by simp
next
  fix t and log :: "(int \<times> 'cb) list" and d :: "('k, 'cb) MappedDebouncer" and tm
  assume "next_due t d = Some tm"
  then have "tm \<in> set (pending d)" by (rule next_due_mem)
  then show "((t, log @ invoked_at (clock (snd (fire tm d))) (fst (fire tm d)), snd (fire tm d)),
              (t, log, d)) \<in> measure (\<lambda>(t, log, d). length (pending d))"
    using pending_fire_less [of tm d] by simp
qed

declare run_until.simps [simp del]

text \<open>
  A script of \<^verbatim>\<open>enqueue\<close> calls, each at its time: before a call, the timers due by then
  have fired.
\<close>

fun run_script ::
  "(int \<times> 'k \<times> 'cb \<times> Config option) list
     \<Rightarrow> (int \<times> 'cb) list \<times> ('k, 'cb) MappedDebouncer
     \<Rightarrow> error + ((int \<times> 'cb) list \<times> ('k, 'cb) MappedDebouncer)" where
  "run_script [] s = Inr s"
| "run_script ((t, key, cb, config) # es) s =
     (case enqueue key cb config (snd (run_until t s)) of
        Inl e \<Rightarrow> Inl e
      | Inr d \<Rightarrow> run_script es (fst (run_until t s), d))"

section \<open>Strings and the URL primitives of the host\<close>

text \<open>
  A JavaScript string is modelled by the bytes of its UTF-8 encoding, as a \<^typ>\<open>string\<close>.
  The host functions below are the byte-level algorithms of the URL and ECMAScript
  standards.
\<close>

definition hex_digit :: "nat \<Rightarrow> char" where
  "hex_digit n = ''0123456789ABCDEF'' ! n"

definition hex_val :: "char \<Rightarrow> nat option" where
  "hex_val c =
     (if c \<in> set ''0123456789'' then Some (of_char c - 48)
      else if c \<in> set ''ABCDEF'' then Some (of_char c - 55)
      else if c \<in> set ''abcdef'' then Some (of_char c - 87)
      else None)"

definition percent_byte :: "char \<Rightarrow> string" where
  "percent_byte c =
     [CHR ''%'', hex_digit ((of_char c :: nat) div 16), hex_digit ((of_char c :: nat) mod 16)]"

definition alnum :: "char \<Rightarrow> bool" where
  "alnum c \<longleftrightarrow>
     c \<in> set ''ABCDEFGHIJKLMNOPQRSTUVWXYZabcdefghijklmnopqrstuvwxyz0123456789''"

text \<open>\<^verbatim>\<open>encodeURIComponent\<close>: every byte but the unreserved ones becomes \<^verbatim>\<open>%XX\<close>.\<close>

definition uri_unreserved :: "char \<Rightarrow> bool" where
  "uri_unreserved c \<longleftrightarrow> alnum c \<or> c \<in> set ''-_.!~*'' \<or> c \<in> set [CHR 0x27, CHR ''('', CHR '')'']"

definition encodeURIComponent :: "string \<Rightarrow> string" where
  "encodeURIComponent s =
     concat (map (\<lambda>c. if uri_unreserved c then [c] else percent_byte c) s)"

subsection \<open>URLSearchParams\<close>

text \<open>
  A \<^verbatim>\<open>URLSearchParams\<close> object is its list of name-value pairs. The query of
  \<^verbatim>\<open>window.location\<close> is kept in this form too: serializing a list into the address and
  parsing the address again gives the list back (\<open>urlencoded_parse_serialize\<close> below).
\<close>

type_synonym search_params = "(string \<times> string) list"

definition sp_has :: "string \<Rightarrow> search_params \<Rightarrow> bool" where
  "sp_has name ps \<longleftrightarrow> name \<in> fst ` set ps"

definition sp_get :: "string \<Rightarrow> search_params \<Rightarrow> string option" where
  "sp_get name ps = map_of ps name"

definition sp_getAll :: "string \<Rightarrow> search_params \<Rightarrow> string list" where
  "sp_getAll name ps = map snd (filter (\<lambda>p. fst p = name) ps)"

definition sp_delete :: "string \<Rightarrow> search_params \<Rightarrow> search_params" where
  "sp_delete name ps = filter (\<lambda>p. fst p \<noteq> name) ps"

definition sp_append :: "string \<Rightarrow> string \<Rightarrow> search_params \<Rightarrow> search_params" where
  "sp_append name v ps = ps @ [(name, v)]"

fun sp_set :: "string \<Rightarrow> string \<Rightarrow> search_params \<Rightarrow> search_params" where
  "sp_set name v [] = [(name, v)]"
| "sp_set name v (p # ps) =
     (if fst p = name then (name, v) # sp_delete name ps else p # sp_set name v ps)"

text \<open>The application/x-www-form-urlencoded serializer, \<^verbatim>\<open>URLSearchParams.toString\<close>.\<close>

definition urlencoded_byte :: "char \<Rightarrow> string" where
  "urlencoded_byte c =
     (if alnum c \<or> c \<in> set ''*-._'' then [c]
      else if c = CHR '' '' then ''+''
      else percent_byte c)"

definition urlencoded_string :: "string \<Rightarrow> string" where
  "urlencoded_string s = concat (map urlencoded_byte s)"

fun urlencoded_serialize :: "search_params \<Rightarrow> string" where
  "urlencoded_serialize [] = []"
| "urlencoded_serialize [p] = urlencoded_string (fst p) @ ''='' @ urlencoded_string (snd p)"
| "urlencoded_serialize (p # q # ps) =
     urlencoded_string (fst p) @ ''='' @ urlencoded_string (snd p) @ ''&''
       @ urlencoded_serialize (q # ps)"

text \<open>
  The parser, \<^verbatim>\<open>new URLSearchParams(string)\<close>: split at \<^verbatim>\<open>&\<close>, drop empty pieces, split each
  piece at its first \<^verbatim>\<open>=\<close>, turn \<^verbatim>\<open>+\<close> into a space and decode the \<^verbatim>\<open>%XX\<close> escapes, leaving
  a malformed escape as it stands. The standard then decodes the bytes as UTF-8,
  replacing ill-formed sequences; the program only ever parses what the serializer
  above wrote, where that step is the identity, and it is left out.
\<close>

fun split_on :: "char \<Rightarrow> string \<Rightarrow> string list" where
  "split_on sep [] = [[]]"
| "split_on sep (c # cs) =
     (if c = sep then [] # split_on sep cs
      else (case split_on sep cs of
              [] \<Rightarrow> [[c]]
            | w # ws \<Rightarrow> (c # w) # ws))"

fun percent_decode :: "string \<Rightarrow> string" where
  "percent_decode (c # h # l # rest) =
     (if c = CHR ''%'' then
        (case hex_val h of
           None \<Rightarrow> c # percent_decode (h # l # rest)
         | Some a \<Rightarrow>
             (case hex_val l of
                None \<Rightarrow> c # percent_decode (h # l # rest)
              | Some b \<Rightarrow> char_of (16 * a + b) # percent_decode rest))
      else c # percent_decode (h # l # rest))"
| "percent_decode cs = cs"

definition plus_to_space :: "string \<Rightarrow> string" where
  "plus_to_space s = map (\<lambda>c. if c = CHR ''+'' then CHR '' '' else c) s"

definition urlencoded_pair :: "string \<Rightarrow> string \<times> string" where
  "urlencoded_pair piece =
     (percent_decode (plus_to_space (takeWhile (\<lambda>c. c \<noteq> CHR ''='') piece)),
      percent_decode (plus_to_space (drop 1 (dropWhile (\<lambda>c. c \<noteq> CHR ''='') piece))))"

definition urlencoded_parse :: "string \<Rightarrow> search_params" where
  "urlencoded_parse s = map urlencoded_pair (filter (\<lambda>piece. piece \<noteq> []) (split_on CHR ''&'' s))"

text \<open>
  \<^verbatim>\<open>new URLSearchParams(init)\<close> for \<^verbatim>\<open>init\<close> a string or \<^verbatim>\<open>undefined\<close>: a leading \<^verbatim>\<open>?\<close> is
  dropped.
\<close>

definition new_URLSearchParams :: "string option \<Rightarrow> search_params" where
  "new_URLSearchParams init =
     (case init of
        None \<Rightarrow> []
      | Some s \<Rightarrow> urlencoded_parse (if take 1 s = ''?'' then drop 1 s else s))"

section \<open>Values of the bound object\<close>

text \<open>
  The values a field of the target object holds, and that handlers produce and consume:
  \<^verbatim>\<open>undefined\<close>, \<^verbatim>\<open>null\<close>, booleans, integer-valued numbers between \<open>-2\<^sup>5\<^sup>3\<close> and \<open>2\<^sup>5\<^sup>3\<close>,
  strings, and arrays of these. Other numbers and objects that are not arrays have no
  term here. An array may be sparse: a position holds an element (\<open>Some\<close>) or is a hole
  (\<open>None\<close>), which \<^verbatim>\<open>map\<close> and \<^verbatim>\<open>forEach\<close> skip and a spread reads as \<^verbatim>\<open>undefined\<close>. A value is
  held by the field that refers to it: two fields sharing one array object are outside
  the model.
\<close>

datatype jsval =
    JUndefined
  | JNull
  | JBool bool
  | JNum int
  | JStr string
  | JArr "jsval option list"

definition isArray :: "jsval \<Rightarrow> bool" where
  "isArray v = (case v of JArr _ \<Rightarrow> True | _ \<Rightarrow> False)"

text \<open>
  \<^verbatim>\<open>arr[index] = v\<close> in strict-mode code: an array grows as needed, leaving holes
  between its old end and the new element, and \<^verbatim>\<open>undefined\<close>, \<^verbatim>\<open>null\<close> and the primitives
  raise a TypeError.
\<close>

definition put_index :: "jsval \<Rightarrow> nat \<Rightarrow> jsval \<Rightarrow> error + jsval" where
  "put_index arr index v =
     (case arr of
        JArr xs \<Rightarrow>
          Inr (JArr (if index < length xs then xs[index := Some v]
                     else xs @ replicate (index - length xs) None @ [Some v]))
      | _ \<Rightarrow> Inl TypeError)"

text \<open>
  \<^verbatim>\<open>arr.splice(start, deleteCount)\<close> for \<open>start \<ge> 0\<close>: only an array has the method.
\<close>

definition splice :: "jsval \<Rightarrow> nat \<Rightarrow> int \<Rightarrow> error + jsval" where
  "splice arr start deleteCount =
     (case arr of
        JArr xs \<Rightarrow>
          (let s = min start (length xs);
               n = nat (min (max deleteCount 0) (int (length xs - s)))
           in Inr (JArr (take s xs @ drop (s + n) xs)))
      | _ \<Rightarrow> Inl TypeError)"

section \<open>The host's JSON and URI-component functions\<close>

definition digit_char :: "nat \<Rightarrow> char" where
  "digit_char n = ''0123456789'' ! n"

fun show_nat :: "nat \<Rightarrow> string" where
  "show_nat n = (if n < 10 then [digit_char n] else show_nat (n div 10) @ [digit_char (n mod 10)])"

declare show_nat.simps [simp del]

definition show_int :: "int \<Rightarrow> string" where
  "show_int i = (if i < 0 then CHR ''-'' # show_nat (nat (- i)) else show_nat (nat i))"

subsection \<open>JSON.stringify\<close>

definition hex_digit_lower :: "nat \<Rightarrow> char" where
  "hex_digit_lower n = ''0123456789abcdef'' ! n"

definition json_escape :: "char \<Rightarrow> string" where
  "json_escape c =
     (if c = CHR 0x22 then [CHR 0x5C, CHR 0x22]
      else if c = CHR 0x5C then [CHR 0x5C, CHR 0x5C]
      else if c = CHR 0x08 then [CHR 0x5C, CHR ''b'']
      else if c = CHR 0x09 then [CHR 0x5C, CHR ''t'']
      else if c = CHR 0x0A then [CHR 0x5C, CHR ''n'']
      else if c = CHR 0x0C then [CHR 0x5C, CHR ''f'']
      else if c = CHR 0x0D then [CHR 0x5C, CHR ''r'']
      else if (of_char c :: nat) < 32 then
        [CHR 0x5C, CHR ''u'', CHR ''0'', CHR ''0'',
         hex_digit_lower ((of_char c :: nat) div 16), hex_digit_lower ((of_char c :: nat) mod 16)]
      else [c])"

definition json_quote :: "string \<Rightarrow> string" where
  "json_quote s = CHR 0x22 # concat (map json_escape s) @ [CHR 0x22]"

fun join_comma :: "string list \<Rightarrow> string" where
  "join_comma [] = []"
| "join_comma [x] = x"
| "join_comma (x # y # ys) = x @ '','' @ join_comma (y # ys)"

text \<open>The text of a value inside an array: \<^verbatim>\<open>undefined\<close> and a hole are written \<^verbatim>\<open>null\<close>.\<close>

fun json_text :: "jsval \<Rightarrow> string" where
  "json_text JUndefined = ''null''"
| "json_text JNull = ''null''"
| "json_text (JBool b) = (if b then ''true'' else ''false'')"
| "json_text (JNum n) = show_int n"
| "json_text (JStr s) = json_quote s"
| "json_text (JArr xs) =
     ''['' @ join_comma (map (\<lambda>x. case x of None \<Rightarrow> ''null'' | Some v \<Rightarrow> json_text v) xs) @ '']''"

text \<open>\<^verbatim>\<open>JSON.stringify(value)\<close>: at the top, \<^verbatim>\<open>undefined\<close> gives \<^verbatim>\<open>undefined\<close>, not a string.\<close>

definition JSON_stringify :: "jsval \<Rightarrow> string option" where
  "JSON_stringify v = (case v of JUndefined \<Rightarrow> None | _ \<Rightarrow> Some (json_text v))"

subsection \<open>JSON.parse\<close>

text \<open>
  A recursive-descent reading of the JSON grammar. A malformed text raises a
  \<open>SyntaxError\<close>. A well-formed text is read to its end, and its value is \<open>None\<close> when
  that value has no term in \<^typ>\<open>jsval\<close>: an object, a number whose double is not an integer
  between \<open>-2\<^sup>5\<^sup>3\<close> and \<open>2\<^sup>5\<^sup>3\<close> or is \<^verbatim>\<open>-0\<close>, a string with the escape of a lone surrogate, or
  an array holding one of these; \<open>JSON_parse\<close> answers \<open>OutsideModel\<close> then. The recursion
  runs on a counter that \<open>JSON_parse\<close> sets above twice the length of the text: every
  second nested call has consumed a character.
\<close>

definition is_ws :: "char \<Rightarrow> bool" where
  "is_ws c \<longleftrightarrow> c = CHR '' '' \<or> c = CHR 0x09 \<or> c = CHR 0x0A \<or> c = CHR 0x0D"

definition skip_ws :: "string \<Rightarrow> string" where
  "skip_ws s = dropWhile is_ws s"

definition is_digit :: "char \<Rightarrow> bool" where
  "is_digit c \<longleftrightarrow> c \<in> set ''0123456789''"

definition digit_val :: "char \<Rightarrow> nat" where
  "digit_val c = of_char c - 48"

definition read_nat :: "string \<Rightarrow> nat" where
  "read_nat ds = foldl (\<lambda>n c. 10 * n + digit_val c) 0 ds"

text \<open>
  The code unit of a \<^verbatim>\<open>\uXXXX\<close> escape, from the text after \<^verbatim>\<open>\u\<close>; the low surrogate that an
  escape at the start of a text gives, if it does; the UTF-8 bytes of a code point.
\<close>

definition hex4 :: "string \<Rightarrow> nat option" where
  "hex4 s =
     (case s of
        h1 # h2 # h3 # h4 # _ \<Rightarrow>
          (case (hex_val h1, hex_val h2, hex_val h3, hex_val h4) of
             (Some a, Some b, Some c, Some d) \<Rightarrow> Some (4096 * a + 256 * b + 16 * c + d)
           | _ \<Rightarrow> None)
      | _ \<Rightarrow> None)"

definition low_escape :: "string \<Rightarrow> nat option" where
  "low_escape s =
     (case s of
        b # u # r \<Rightarrow>
          (if b = CHR 0x5C \<and> u = CHR ''u'' then
             (case hex4 r of
                Some lo \<Rightarrow> if 56320 \<le> lo \<and> lo \<le> 57343 then Some lo else None
              | None \<Rightarrow> None)
           else None)
      | _ \<Rightarrow> None)"

definition utf8_encode :: "nat \<Rightarrow> string" where
  "utf8_encode cp =
     (if cp < 128 then [char_of cp]
      else if cp < 2048 then [char_of (192 + cp div 64), char_of (128 + cp mod 64)]
      else if cp < 65536 then
        [char_of (224 + cp div 4096), char_of (128 + cp div 64 mod 64), char_of (128 + cp mod 64)]
      else
        [char_of (240 + cp div 262144), char_of (128 + cp div 4096 mod 64),
         char_of (128 + cp div 64 mod 64), char_of (128 + cp mod 64)])"

text \<open>
  The string after the opening quote: the bytes read (\<open>None\<close> when a lone surrogate was
  among them), and the text after the closing quote.
\<close>

definition prepend ::
  "string option \<Rightarrow> error + (string option \<times> string) \<Rightarrow> error + (string option \<times> string)" where
  "prepend p r =
     (case r of
        Inl err \<Rightarrow> Inl err
      | Inr (s, rest) \<Rightarrow>
          Inr (case p of None \<Rightarrow> None | Some a \<Rightarrow> (case s of None \<Rightarrow> None | Some b \<Rightarrow> Some (a @ b)),
               rest))"

fun parse_string_body :: "string \<Rightarrow> error + (string option \<times> string)" where
  "parse_string_body [] = Inl SyntaxError"
| "parse_string_body (c # cs) =
     (if c = CHR 0x22 then Inr (Some [], cs)
      else if (of_char c :: nat) < 32 then Inl SyntaxError
      else if c = CHR 0x5C then
        (case cs of
           [] \<Rightarrow> Inl SyntaxError
         | e # es \<Rightarrow>
             (if e = CHR ''u'' then
                (case hex4 es of
                   None \<Rightarrow> Inl SyntaxError
                 | Some cp \<Rightarrow>
                     (if 55296 \<le> cp \<and> cp \<le> 56319 then
                        (case low_escape (drop 4 es) of
                           Some lo \<Rightarrow>
                             prepend (Some (utf8_encode (65536 + (cp - 55296) * 1024 + (lo - 56320))))
                               (parse_string_body (drop 10 es))
                         | None \<Rightarrow> prepend None (parse_string_body (drop 4 es)))
                      else if 56320 \<le> cp \<and> cp \<le> 57343 then
                        prepend None (parse_string_body (drop 4 es))
                      else prepend (Some (utf8_encode cp)) (parse_string_body (drop 4 es))))
              else
                (case map_of [(CHR 0x22, CHR 0x22), (CHR 0x5C, CHR 0x5C), (CHR ''/'', CHR ''/''),
                              (CHR ''b'', CHR 0x08), (CHR ''f'', CHR 0x0C), (CHR ''n'', CHR 0x0A),
                              (CHR ''r'', CHR 0x0D), (CHR ''t'', CHR 0x09)] e of
                   None \<Rightarrow> Inl SyntaxError
                 | Some x \<Rightarrow> prepend (Some [x]) (parse_string_body es))))
      else prepend (Some [c]) (parse_string_body cs))"

text \<open>
  The double of a decimal text. \<open>integer_double a b\<close> is the double nearest to \<open>a / b\<close>
  (ties to the even significand) when that double is an integer of at most \<open>2\<^sup>5\<^sup>3\<close>:
  with \<open>e\<close> the binary exponent of \<open>a / b\<close>, the doubles around it are the multiples of
  \<open>2\<^bsup>e - 52\<^esup>\<close>; below \<open>1/2\<close> the only integer is 0, which is the nearest double up to
  \<open>2\<^bsup>-1075\<^esup>\<close>.
\<close>

fun bitlen :: "nat \<Rightarrow> nat" where
  "bitlen n = (if n = 0 then 0 else Suc (bitlen (n div 2)))"

declare bitlen.simps [simp del]

definition binade :: "nat \<Rightarrow> nat \<Rightarrow> int" where
  "binade a b =
     (let d = int (bitlen a) - int (bitlen b)
      in if (if 0 \<le> d then b * 2 ^ nat d \<le> a else b \<le> a * 2 ^ nat (- d)) then d else d - 1)"

definition round_half_even :: "nat \<Rightarrow> nat \<Rightarrow> nat" where
  "round_half_even n d =
     (let q = n div d; r = n mod d
      in if 2 * r < d then q else if d < 2 * r then q + 1 else if even q then q else q + 1)"

definition integer_double :: "nat \<Rightarrow> nat \<Rightarrow> nat option" where
  "integer_double a b =
     (if 2 * a < b then (if a * 2 ^ 1075 \<le> b then Some 0 else None)
      else
        (let e = binade a b in
         if 54 \<le> e then None
         else if e = 53 then
           (if round_half_even a (2 * b) = 2 ^ 52 then Some (2 ^ 53) else None)
         else
           (let s = nat (52 - e); m = round_half_even (a * 2 ^ s) b
            in if 2 ^ s dvd m then Some (m div 2 ^ s) else None)))"

text \<open>
  A number whose sign has been read (\<open>neg\<close> tells whether there was one): the integer part,
  the fraction and the exponent of the grammar, then the value.
\<close>

definition parse_number :: "bool \<Rightarrow> string \<Rightarrow> error + (jsval option \<times> string)" where
  "parse_number neg s =
     (let ds = (if take 1 s = ''0'' then ''0'' else takeWhile is_digit s);
          r1 = drop (length ds) s;
          has_frac = (take 1 r1 = ''.'');
          fs = (if has_frac then takeWhile is_digit (drop 1 r1) else []);
          r2 = (if has_frac then drop (Suc (length fs)) r1 else r1);
          has_exp = (take 1 r2 = ''e'' \<or> take 1 r2 = ''E'');
          r3 = (if has_exp then drop 1 r2 else r2);
          exp_neg = (has_exp \<and> take 1 r3 = ''-'');
          r4 = (if has_exp \<and> (take 1 r3 = ''-'' \<or> take 1 r3 = ''+'') then drop 1 r3 else r3);
          es = (if has_exp then takeWhile is_digit r4 else []);
          r5 = drop (length es) r4;
          m = read_nat (ds @ fs);
          x = (if exp_neg then - int (read_nat es) else int (read_nat es)) - int (length fs)
      in if ds = [] \<or> (has_frac \<and> fs = []) \<or> (has_exp \<and> es = []) then Inl SyntaxError
         else
           Inr (case (if 0 \<le> x then integer_double (m * 10 ^ nat x) 1
                      else integer_double m (10 ^ nat (- x))) of
                  None \<Rightarrow> None
                | Some n \<Rightarrow>
                    if neg \<and> n = 0 then None else Some (JNum (if neg then - int n else int n)),
                r5))"

text \<open>
  \<open>parse_elements\<close> reads the elements of an array up to its closing bracket and
  \<open>parse_members\<close> the members of an object up to its closing brace; the value of an
  object has no term.
\<close>

fun parse_value :: "nat \<Rightarrow> string \<Rightarrow> error + (jsval option \<times> string)"
  and parse_elements :: "nat \<Rightarrow> string \<Rightarrow> error + (jsval list option \<times> string)"
  and parse_members :: "nat \<Rightarrow> string \<Rightarrow> error + string" where
  "parse_value 0 s = Inl SyntaxError"
| "parse_value (Suc fuel) s =
     (case skip_ws s of
        [] \<Rightarrow> Inl SyntaxError
      | c # cs \<Rightarrow>
          (if c = CHR ''['' then
             (case skip_ws cs of
                [] \<Rightarrow> Inl SyntaxError
              | d # ds \<Rightarrow>
                  (if d = CHR '']'' then Inr (Some (JArr []), ds)
                   else (case parse_elements fuel cs of
                           Inl err \<Rightarrow> Inl err
                         | Inr (vs, r) \<Rightarrow> Inr (map_option (\<lambda>xs. JArr (map Some xs)) vs, r))))
           else if c = CHR ''{'' then
             (case skip_ws cs of
                [] \<Rightarrow> Inl SyntaxError
              | d # ds \<Rightarrow>
                  (if d = CHR ''}'' then Inr (None, ds)
                   else (case parse_members fuel cs of
                           Inl err \<Rightarrow> Inl err
                         | Inr r \<Rightarrow> Inr (None, r))))
           else if c = CHR 0x22 then
             (case parse_string_body cs of
                Inl err \<Rightarrow> Inl err
              | Inr (str, r) \<Rightarrow> Inr (map_option JStr str, r))
           else if take 4 (c # cs) = ''null'' then Inr (Some JNull, drop 4 (c # cs))
           else if take 4 (c # cs) = ''true'' then Inr (Some (JBool True), drop 4 (c # cs))
           else if take 5 (c # cs) = ''false'' then Inr (Some (JBool False), drop 5 (c # cs))
           else if c = CHR ''-'' then parse_number True cs
           else parse_number False (c # cs)))"
| "parse_elements 0 s = Inl SyntaxError"
| "parse_elements (Suc fuel) s =
     (case parse_value fuel s of
        Inl err \<Rightarrow> Inl err
      | Inr (v, r) \<Rightarrow>
          (case skip_ws r of
             [] \<Rightarrow> Inl SyntaxError
           | c # cs \<Rightarrow>
               (if c = CHR '']'' then Inr (map_option (\<lambda>x. [x]) v, cs)
                else if c = CHR '','' then
                  (case parse_elements fuel cs of
                     Inl err \<Rightarrow> Inl err
                   | Inr (vs, r') \<Rightarrow>
                       Inr (case v of
                              None \<Rightarrow> None
                            | Some x \<Rightarrow> map_option (\<lambda>xs. x # xs) vs, r'))
                else Inl SyntaxError)))"
| "parse_members 0 s = Inl SyntaxError"
| "parse_members (Suc fuel) s =
     (case skip_ws s of
        [] \<Rightarrow> Inl SyntaxError
      | q # qs \<Rightarrow>
          (if q = CHR 0x22 then
             (case parse_string_body qs of
                Inl err \<Rightarrow> Inl err
              | Inr (name, r) \<Rightarrow>
                  (case skip_ws r of
                     [] \<Rightarrow> Inl SyntaxError
                   | c # cs \<Rightarrow>
                       (if c = CHR '':'' then
                          (case parse_value fuel cs of
                             Inl err \<Rightarrow> Inl err
                           | Inr (v, r') \<Rightarrow>
                               (case skip_ws r' of
                                  [] \<Rightarrow> Inl SyntaxError
                                | d # ds \<Rightarrow>
                                    (if d = CHR ''}'' then Inr ds
                                     else if d = CHR '','' then parse_members fuel ds
                                     else Inl SyntaxError)))
                        else Inl SyntaxError)))
           else Inl SyntaxError))"

definition JSON_parse :: "string \<Rightarrow> error + jsval" where
  "JSON_parse s =
     (case parse_value (2 * length s + 2) s of
        Inl err \<Rightarrow> Inl err
      | Inr (v, r) \<Rightarrow>
          if skip_ws r \<noteq> [] then Inl SyntaxError
          else (case v of None \<Rightarrow> Inl OutsideModel | Some x \<Rightarrow> Inr x))"

subsection \<open>decodeURIComponent\<close>

text \<open>
  Every \<^verbatim>\<open>%XX\<close> escape is decoded; an escape that is cut short or not hexadecimal
  raises a URIError, and so does a run of escaped bytes from \<open>0x80\<close> up that is not the
  UTF-8 encoding of a code point. \<open>continuation lo hi n s\<close> reads \<open>n\<close> more escaped bytes,
  the first of them between \<open>lo\<close> and \<open>hi\<close>.
\<close>

definition escaped_byte :: "string \<Rightarrow> (nat \<times> string) option" where
  "escaped_byte s =
     (case s of
        c # h # l # rest \<Rightarrow>
          (if c = CHR ''%'' then
             (case (hex_val h, hex_val l) of
                (Some a, Some b) \<Rightarrow> Some (16 * a + b, rest)
              | _ \<Rightarrow> None)
           else None)
      | _ \<Rightarrow> None)"

fun continuation :: "nat \<Rightarrow> nat \<Rightarrow> nat \<Rightarrow> string \<Rightarrow> (string \<times> string) option" where
  "continuation lo hi 0 s = Some ([], s)"
| "continuation lo hi (Suc n) s =
     (case escaped_byte s of
        None \<Rightarrow> None
      | Some (b, rest) \<Rightarrow>
          (if lo \<le> b \<and> b \<le> hi then
             (case continuation 128 191 n rest of
                None \<Rightarrow> None
              | Some (bs, r) \<Rightarrow> Some (char_of b # bs, r))
           else None))"

definition utf8_tail :: "nat \<Rightarrow> string \<Rightarrow> (string \<times> string) option" where
  "utf8_tail b s =
     (if 194 \<le> b \<and> b \<le> 223 then continuation 128 191 1 s
      else if b = 224 then continuation 160 191 2 s
      else if b = 237 then continuation 128 159 2 s
      else if 225 \<le> b \<and> b \<le> 239 then continuation 128 191 2 s
      else if b = 240 then continuation 144 191 3 s
      else if b = 244 then continuation 128 143 3 s
      else if 241 \<le> b \<and> b \<le> 243 then continuation 128 191 3 s
      else None)"

function decodeURIComponent :: "string \<Rightarrow> error + string" where
  "decodeURIComponent [] = Inr []"
| "decodeURIComponent (c # cs) =
     (if c \<noteq> CHR ''%'' then
        (case decodeURIComponent cs of Inl err \<Rightarrow> Inl err | Inr s \<Rightarrow> Inr (c # s))
      else
        (case escaped_byte (c # cs) of
           None \<Rightarrow> Inl URIError
         | Some (b, rest) \<Rightarrow>
             (if b < 128 then
                (case decodeURIComponent (drop 2 cs) of
                   Inl err \<Rightarrow> Inl err
                 | Inr s \<Rightarrow> Inr (char_of b # s))
              else
                (case utf8_tail b rest of
                   None \<Rightarrow> Inl URIError
                 | Some (bs, r) \<Rightarrow>
                     (case decodeURIComponent (drop (length cs - length r) cs) of
                        Inl err \<Rightarrow> Inl err
                      | Inr s \<Rightarrow> Inr (char_of b # bs @ s))))))"
  by pat_completeness auto
termination
  by (relation "measure length") auto

section \<open>Parameter handlers (URLParameterize.svelte.ts)\<close>

datatype UpdateHistoryBehavior = Push | Replace

datatype EntryBehavior = Multiple | Single

text \<open>A handler's \<^verbatim>\<open>debounce\<close> option: \<^verbatim>\<open>false\<close>, a configuration, or \<^verbatim>\<open>null\<close>/absent.\<close>

datatype debounce_setting = DebounceFalse | DebounceConfig Config | DebounceNull

record PreviousKey =
  fullname :: string
  remove_opt :: "bool option"
  apply_opt :: "bool option"
  behavior_opt :: "UpdateHistoryBehavior option"

text \<open>
  The handler functions have the types their defaults need: \<^verbatim>\<open>JSON.stringify\<close> returns
  \<^verbatim>\<open>undefined\<close> for some values (\<open>None\<close>), \<^verbatim>\<open>encodeURIComponent\<close> accepts that, and
  \<^verbatim>\<open>decodeURIComponent\<close> and \<^verbatim>\<open>JSON.parse\<close> throw on malformed input. \<open>resolve\<close> takes the
  intermediate value, the parameter and the array index (\<open>None\<close> for \<^verbatim>\<open>undefined\<close>).
\<close>

type_synonym resolve_fn = "jsval \<Rightarrow> string \<Rightarrow> nat option \<Rightarrow> error + jsval"
type_synonym serialize_fn = "jsval \<Rightarrow> string option"
type_synonym deserialize_fn = "string \<Rightarrow> error + jsval"
type_synonym decode_fn = "string \<Rightarrow> error + string"
type_synonym encode_fn = "string option \<Rightarrow> string"

text \<open>What the caller writes for one field: a bare resolve function or a verbose record.\<close>

record VerboseParameterHandler =
  v_key :: "string option"
  v_history :: "UpdateHistoryBehavior option"
  v_entries :: "EntryBehavior option"
  v_debounce :: debounce_setting
  v_resolve :: resolve_fn
  v_serialize :: "serialize_fn option"
  v_deserialize :: "deserialize_fn option"
  v_decode :: "decode_fn option"
  v_encode :: "encode_fn option"
  v_previousKeys :: "PreviousKey list option"

datatype ParameterHandler = Bare resolve_fn | Verbose VerboseParameterHandler

datatype 'a MaybeGetter = Plain 'a | Getter "unit \<Rightarrow> 'a option"

record Options =
  o_prefix :: "string MaybeGetter option"
  o_debounce :: "Config option"
  o_history :: "UpdateHistoryBehavior option"
  o_encode :: "encode_fn option"
  o_decode :: "decode_fn option"
  o_deserialize :: "deserialize_fn option"
  o_serialize :: "serialize_fn option"

text \<open>The resolved handler, every default applied.\<close>

record ResolvedParameterHandler =
  key :: string
  resolve :: resolve_fn
  serialize :: serialize_fn
  deserialize :: deserialize_fn
  decode :: decode_fn
  encode :: encode_fn
  entries :: EntryBehavior
  history :: UpdateHistoryBehavior
  debounce :: debounce_setting
  previousKeys :: "PreviousKey list option"

text \<open>\<^verbatim>\<open>resolve\<close> of utils.ts: the value of a \<^verbatim>\<open>MaybeGetter\<close>, or the fallback.\<close>

definition resolve_getter :: "'a MaybeGetter option \<Rightarrow> 'a \<Rightarrow> 'a" where
  "resolve_getter v fallback =
     (case v of
        None \<Rightarrow> fallback
      | Some (Plain x) \<Rightarrow> x
      | Some (Getter g) \<Rightarrow> (case g () of None \<Rightarrow> fallback | Some r \<Rightarrow> r))"

definition validParam :: "string \<Rightarrow> string" where
  "validParam k = encodeURIComponent k"

text \<open>\<^verbatim>\<open>a ?? b ?? c\<close> over an optional handler field, an optional option and a default.\<close>

definition nullish3 :: "'a option \<Rightarrow> 'a option \<Rightarrow> 'a \<Rightarrow> 'a" where
  "nullish3 a b c = (case a of Some x \<Rightarrow> x | None \<Rightarrow> (case b of Some y \<Rightarrow> y | None \<Rightarrow> c))"

definition option_field :: "('o \<Rightarrow> 'a option) \<Rightarrow> 'o option \<Rightarrow> 'a option" where
  "option_field f options = (case options of None \<Rightarrow> None | Some o' \<Rightarrow> f o')"

definition verbose_of :: "ParameterHandler \<Rightarrow> VerboseParameterHandler" where
  "verbose_of handler =
     (case handler of
        Verbose v \<Rightarrow> v
      | Bare r \<Rightarrow>
          \<lparr> v_key = None, v_history = None, v_entries = None, v_debounce = DebounceNull,
            v_resolve = r, v_serialize = None, v_deserialize = None, v_decode = None,
            v_encode = None, v_previousKeys = None \<rparr>)"

text \<open>
  The \<^verbatim>\<open>defaults\<close> object. \<^verbatim>\<open>encodeURIComponent(undefined)\<close> is the text \<^verbatim>\<open>undefined\<close>.
\<close>

definition default_encode :: encode_fn where
  "default_encode serialized =
     encodeURIComponent (case serialized of None \<Rightarrow> ''undefined'' | Some s \<Rightarrow> s)"

definition default_decode :: decode_fn where
  "default_decode serialized = decodeURIComponent serialized"

definition default_deserialize :: deserialize_fn where
  "default_deserialize query =
     (if query \<noteq> ''undefined'' then JSON_parse query else Inr JUndefined)"

definition default_serialize :: serialize_fn where
  "default_serialize v = JSON_stringify v"

definition verbosify ::
  "ParameterHandler \<Rightarrow> string \<Rightarrow> Options option \<Rightarrow> ResolvedParameterHandler" where
  "verbosify handler k options =
     (let h = verbose_of handler in
      \<lparr> key = validParam (resolve_getter (option_field o_prefix options) []
                          @ (case v_key h of Some x \<Rightarrow> x | None \<Rightarrow> k)),
        resolve = v_resolve h,
        serialize = nullish3 (v_serialize h) (option_field o_serialize options) default_serialize,
        deserialize =
          nullish3 (v_deserialize h) (option_field o_deserialize options) default_deserialize,
        decode = nullish3 (v_decode h) (option_field o_decode options) default_decode,
        encode = nullish3 (v_encode h) (option_field o_encode options) default_encode,
        entries = (case v_entries h of Some e \<Rightarrow> e | None \<Rightarrow> Single),
        history = nullish3 (v_history h) (option_field o_history options) Push,
        debounce = v_debounce h,
        previousKeys = v_previousKeys h \<rparr>)"

definition supportsMultiple :: "ResolvedParameterHandler \<Rightarrow> bool" where
  "supportsMultiple handler \<longleftrightarrow> entries handler = Multiple"

subsection \<open>The URL state snapshot\<close>

text \<open>A parameter's value in a snapshot: one string or a list of strings.\<close>

datatype param_value = One string | Many "string list"

type_synonym URLState = "string \<rightharpoonup> param_value"

definition state_add :: "URLState \<Rightarrow> string \<times> string \<Rightarrow> URLState" where
  "state_add st p =
     (case st (fst p) of
        None \<Rightarrow> st(fst p \<mapsto> One (snd p))
      | Some (One existing) \<Rightarrow> st(fst p \<mapsto> Many [existing, snd p])
      | Some (Many existing) \<Rightarrow> st(fst p \<mapsto> Many (existing @ [snd p])))"

definition getURLState :: "search_params \<Rightarrow> URLState" where
  "getURLState ps = foldl state_add Map.empty ps"

definition cachify :: "string \<Rightarrow> string list \<Rightarrow> string" where
  "cachify param vs = urlencoded_serialize (map (\<lambda>v. (param, v)) vs)"


text \<open>
  The value of a write, which the module's \<^verbatim>\<open>encode\<close> returns: one string, or an array of
  strings with the holes of the field's array (\<^verbatim>\<open>map\<close> keeps them). \<open>spread\<close> is the
  argument list \<^verbatim>\<open>...value\<close> of \<^verbatim>\<open>cachify\<close>, where a hole reads as \<^verbatim>\<open>undefined\<close> and
  \<^verbatim>\<open>URLSearchParams\<close> writes that as the text \<^verbatim>\<open>undefined\<close>; \<open>visited\<close> is what
  \<^verbatim>\<open>value.forEach\<close> visits, which skips the holes.
\<close>

datatype encoded = Encoded string | Encoded_list "string option list"

definition spread :: "string option list \<Rightarrow> string list" where
  "spread vs = map (\<lambda>v. case v of None \<Rightarrow> ''undefined'' | Some s \<Rightarrow> s) vs"

definition visited :: "string option list \<Rightarrow> string list" where
  "visited vs = concat (map (\<lambda>v. case v of None \<Rightarrow> [] | Some s \<Rightarrow> [s]) vs)"

definition cached_values :: "encoded \<Rightarrow> string list" where
  "cached_values v = (case v of Encoded s \<Rightarrow> [s] | Encoded_list vs \<Rightarrow> spread vs)"

definition written_values :: "encoded \<Rightarrow> string list" where
  "written_values v = (case v of Encoded s \<Rightarrow> [s] | Encoded_list vs \<Rightarrow> visited vs)"

definition evaluate ::
  "ResolvedParameterHandler \<Rightarrow> string \<Rightarrow> string \<Rightarrow> nat option \<Rightarrow> error + jsval" where
  "evaluate handler v param index =
     (case decode handler v of
        Inl e \<Rightarrow> Inl e
      | Inr decoded \<Rightarrow>
          (case deserialize handler decoded of
             Inl e \<Rightarrow> Inl e
           | Inr q \<Rightarrow> resolve handler q param index))"

text \<open>
  \<^verbatim>\<open>parameterize(value, handler)\<close>, the composition of the module's \<^verbatim>\<open>serialize\<close> and
  \<^verbatim>\<open>encode\<close>: element by element for a multiple handler on an array (\<^verbatim>\<open>value.map\<close>, which
  skips the holes and keeps them in its result), at once otherwise.
\<close>

definition parameterize :: "jsval \<Rightarrow> ResolvedParameterHandler \<Rightarrow> encoded" where
  "parameterize v handler =
     (case v of
        JArr xs \<Rightarrow>
          (if entries handler = Multiple
           then Encoded_list (map (map_option (\<lambda>x. encode handler (serialize handler x))) xs)
           else Encoded (encode handler (serialize handler v)))
      | _ \<Rightarrow> Encoded (encode handler (serialize handler v)))"

section \<open>The process-wide state\<close>

text \<open>
  One binding made by \<^verbatim>\<open>URLParameterize\<close>: the target object (by its identity), the
  \<^verbatim>\<open>paramByKey\<close> map in insertion order, the \<^verbatim>\<open>disposed\<close> flag, and whether its
  \<^verbatim>\<open>onURLChange\<close> listener is registered on the window.
\<close>

record Binding =
  target :: nat
  paramByKey :: "(string \<times> string) list"
  disposed :: bool
  listening :: bool

text \<open>
  The \<^verbatim>\<open>update\<close> closure that \<^verbatim>\<open>setupEffect\<close> hands to the debouncer, by what it captures.
\<close>

record Update =
  u_target :: nat
  u_key :: string
  u_param :: string
  u_handler :: ResolvedParameterHandler

text \<open>
  The module state (\<^verbatim>\<open>globals\<close>, \<^verbatim>\<open>URLChangeEvent.setupComplete\<close>) and the host state it
  acts on: the query of \<^verbatim>\<open>window.location\<close>, the calls made to the native
  \<^verbatim>\<open>pushState\<close>/\<^verbatim>\<open>replaceState\<close> in order with the address each one set, the properties of the
  target objects, and the bindings in the order their listeners were registered (a
  binding is named by its position).
\<close>

record world =
  supportsHistory :: bool
  setupComplete :: bool
  location :: search_params
  navigations :: "(UpdateHistoryBehavior \<times> search_params) list"
  handlerByParam :: "string \<rightharpoonup> ResolvedParameterHandler"
  cachedByParam :: "string \<rightharpoonup> string"
  debouncer :: "(string, Update) MappedDebouncer"
  objects :: "nat \<Rightarrow> string \<Rightarrow> jsval"
  bindings :: "Binding list"

definition set_field :: "nat \<Rightarrow> string \<Rightarrow> jsval \<Rightarrow> world \<Rightarrow> world" where
  "set_field t k v w = w\<lparr> objects := (objects w)(t := (objects w t)(k := v)) \<rparr>"

definition cache :: "string \<Rightarrow> string \<Rightarrow> world \<Rightarrow> world" where
  "cache param v w = w\<lparr> cachedByParam := (cachedByParam w)(param \<mapsto> v) \<rparr>"

definition safeSetHandler :: "ResolvedParameterHandler \<Rightarrow> world \<Rightarrow> error + world" where
  "safeSetHandler handler w =
     (if key handler \<in> dom (handlerByParam w) then Inl (KeyConflict (key handler))
      else Inr (w\<lparr> handlerByParam := (handlerByParam w)(key handler \<mapsto> handler) \<rparr>))"

definition unsafeSetHandler :: "ResolvedParameterHandler \<Rightarrow> world \<Rightarrow> world" where
  "unsafeSetHandler handler w =
     w\<lparr> handlerByParam := (handlerByParam w)(key handler \<mapsto> handler) \<rparr>"

subsection \<open>Reading a snapshot into a field\<close>

text \<open>
  The loop of \<^verbatim>\<open>trySetFromURL\<close> over the snapshot's values: position \<open>index\<close> is resolved
  and assigned when its raw string differs from the cached one at that position.
  \<open>previous\<close> is the cached list from \<open>index\<close> on. The array is returned as far as it was
  written, with the exception that stopped the loop, if any.
\<close>

fun assign_changed ::
  "ResolvedParameterHandler \<Rightarrow> string \<Rightarrow> nat \<Rightarrow> string list \<Rightarrow> string list \<Rightarrow> jsval
     \<Rightarrow> jsval \<times> error option" where
  "assign_changed handler param index [] previous arr = (arr, None)"
| "assign_changed handler param index (v # vs) previous arr =
     (if take 1 previous = [v] then
        assign_changed handler param (Suc index) vs (drop 1 previous) arr
      else
        (case evaluate handler v param (Some index) of
           Inl e \<Rightarrow> (arr, Some e)
         | Inr x \<Rightarrow>
             (case put_index arr index x of
                Inl e \<Rightarrow> (arr, Some e)
              | Inr arr' \<Rightarrow>
                  assign_changed handler param (Suc index) vs (drop 1 previous) arr')))"

definition trySetFromURL_multiple ::
  "ResolvedParameterHandler \<Rightarrow> string list \<Rightarrow> nat \<Rightarrow> string \<Rightarrow> string \<Rightarrow> bool \<Rightarrow> world
     \<Rightarrow> world \<times> error option" where
  "trySetFromURL_multiple handler vs t k param doCache w =
     (let previous = sp_getAll param (new_URLSearchParams (cachedByParam w param));
          looped = assign_changed handler param 0 vs previous (objects w t k);
          w1 = set_field t k (fst looped) w
      in (case snd looped of
            Some e \<Rightarrow> (w1, Some e)
          | None \<Rightarrow>
              (case splice (fst looped) (length vs) (int (length previous) - int (length vs)) of
                 Inl e \<Rightarrow> (w1, Some e)
               | Inr arr \<Rightarrow>
                   (let w2 = set_field t k arr w1
                    in (if doCache then cache param (cachify param vs) w2 else w2, None)))))"

definition trySetFromURL_single ::
  "ResolvedParameterHandler \<Rightarrow> string \<Rightarrow> nat \<Rightarrow> string \<Rightarrow> string \<Rightarrow> bool \<Rightarrow> world
     \<Rightarrow> world \<times> error option" where
  "trySetFromURL_single handler current t k param doCache w =
     (if sp_get param (new_URLSearchParams (cachedByParam w param)) = Some current then (w, None)
      else
        (case evaluate handler current param None of
           Inl e \<Rightarrow> (w, Some e)
         | Inr x \<Rightarrow>
             (let w1 = set_field t k x w
              in (if doCache then cache param (cachify param [current]) w1 else w1, None))))"

definition trySetFromURL ::
  "URLState \<Rightarrow> nat \<Rightarrow> string \<Rightarrow> string \<Rightarrow> ResolvedParameterHandler option \<Rightarrow> bool \<Rightarrow> world
     \<Rightarrow> world \<times> error option" where
  "trySetFromURL st t k param handler doCache w =
     (case st param of
        None \<Rightarrow>
          (let w1 = w\<lparr> cachedByParam := (cachedByParam w)(param := None) \<rparr>
           in (if isArray (objects w1 t k) then set_field t k (JArr []) w1 else w1, None))
      | Some current \<Rightarrow>
          (case (case handler of Some h \<Rightarrow> Some h | None \<Rightarrow> handlerByParam w param) of
             None \<Rightarrow> (w, Some TypeError)
           | Some h \<Rightarrow>
               (case current of
                  Many vs \<Rightarrow>
                    (if supportsMultiple h then trySetFromURL_multiple h vs t k param doCache w
                     else (w, Some ExpectedMultiple))
                | One v \<Rightarrow>
                    (if supportsMultiple h then trySetFromURL_multiple h [v] t k param doCache w
                     else trySetFromURL_single h v t k param doCache w))))"

subsection \<open>The URL change bus\<close>

text \<open>
  \<^verbatim>\<open>onURLChange\<close> of one binding: \<^verbatim>\<open>paramByKey.forEach\<close>, which an exception leaves. The
  host reports an exception of a listener and goes on to the next listener.
\<close>

fun onURLChange :: "URLState \<Rightarrow> nat \<Rightarrow> (string \<times> string) list \<Rightarrow> world \<Rightarrow> world" where
  "onURLChange st t [] w = w"
| "onURLChange st t (kp # kps) w =
     (case snd (trySetFromURL st t (fst kp) (snd kp) None True w) of
        Some e \<Rightarrow> fst (trySetFromURL st t (fst kp) (snd kp) None True w)
      | None \<Rightarrow> onURLChange st t kps (fst (trySetFromURL st t (fst kp) (snd kp) None True w)))"

fun dispatch :: "URLState \<Rightarrow> Binding list \<Rightarrow> world \<Rightarrow> world" where
  "dispatch st [] w = w"
| "dispatch st (b # bs) w =
     dispatch st bs (if listening b then onURLChange st (target b) (paramByKey b) w else w)"

definition emit :: "world \<Rightarrow> world" where
  "emit w = dispatch (getURLState (location w)) (bindings w) w"

definition setupListener :: "world \<Rightarrow> bool \<times> world" where
  "setupListener w =
     (if setupComplete w then (True, w)
      else if \<not> supportsHistory w then (False, w)
      else (True, w\<lparr> setupComplete := True \<rparr>))"

fun modifySearchParam :: "string \<Rightarrow> encoded option \<Rightarrow> search_params \<Rightarrow> search_params" where
  "modifySearchParam param None url = sp_delete param url"
| "modifySearchParam param (Some (Encoded_list vs)) url =
     foldl (\<lambda>u v. sp_append param v u) (sp_delete param url) (visited vs)"
| "modifySearchParam param (Some (Encoded v)) url = sp_set param v url"

text \<open>
  \<^verbatim>\<open>commit\<close> calls the wrapped history function: the native call, then \<^verbatim>\<open>emit\<close>.
\<close>

definition commit :: "search_params \<Rightarrow> UpdateHistoryBehavior \<Rightarrow> world \<Rightarrow> world" where
  "commit url behavior w =
     (if \<not> fst (setupListener w) then snd (setupListener w)
      else emit ((snd (setupListener w))
                   \<lparr> location := url, navigations := navigations w @ [(behavior, url)] \<rparr>))"

definition trigger ::
  "string \<Rightarrow> encoded option \<Rightarrow> UpdateHistoryBehavior \<Rightarrow> world \<Rightarrow> world" where
  "trigger param v behavior w = commit (modifySearchParam param v (location w)) behavior w"

definition batchTrigger ::
  "(string \<times> encoded option) list \<Rightarrow> UpdateHistoryBehavior \<Rightarrow> world \<Rightarrow> world" where
  "batchTrigger vs behavior w =
     commit (foldl (\<lambda>url pv. modifySearchParam (fst pv) (snd pv) url) (location w) vs) behavior w"

subsection \<open>Writing a parameter\<close>


text \<open>
  The reconstructed query string of an entry of \<^verbatim>\<open>trySetURLParams\<close>, whose value may be
  \<^verbatim>\<open>undefined\<close>: \<^verbatim>\<open>URLSearchParams\<close> writes that as the text \<^verbatim>\<open>undefined\<close>.
\<close>

definition cachify_entry :: "string \<times> encoded option \<Rightarrow> string" where
  "cachify_entry pv =
     cachify (fst pv) (case snd pv of None \<Rightarrow> [''undefined''] | Some v \<Rightarrow> cached_values v)"

text \<open>The \<^verbatim>\<open>filter\<close> of \<^verbatim>\<open>trySetURLParams\<close>, whose predicate writes the cache.\<close>

fun filter_changed ::
  "(string \<times> encoded option) list \<Rightarrow> world
     \<Rightarrow> (string \<times> encoded option) list \<times> world" where
  "filter_changed [] w = ([], w)"
| "filter_changed (pv # pvs) w =
     (if cachedByParam w (fst pv) \<noteq> Some (cachify_entry pv)
      then (pv # fst (filter_changed pvs (cache (fst pv) (cachify_entry pv) w)),
            snd (filter_changed pvs (cache (fst pv) (cachify_entry pv) w)))
      else filter_changed pvs w)"

definition trySetURLParams ::
  "(string \<times> encoded option) list \<Rightarrow> UpdateHistoryBehavior \<Rightarrow> world \<Rightarrow> world" where
  "trySetURLParams vs behavior w =
     batchTrigger (fst (filter_changed vs w)) behavior (snd (filter_changed vs w))"

text \<open>\<^verbatim>\<open>globals.delete\<close>.\<close>

definition delete :: "string \<Rightarrow> world \<Rightarrow> world" where
  "delete param w =
     trigger param None Replace
       (w\<lparr> debouncer := clear param (debouncer w),
           cachedByParam := (cachedByParam w)(param := None),
           handlerByParam := (handlerByParam w)(param := None) \<rparr>)"

subsection \<open>Legacy keys\<close>

text \<open>
  The loop of \<^verbatim>\<open>tryProcessHistoricalKeys\<close>, with the defaults of the destructuring
  (\<^verbatim>\<open>remove = true\<close>, \<^verbatim>\<open>apply = true\<close>, \<^verbatim>\<open>behavior = "replace"\<close>). It returns the lists
  \<^verbatim>\<open>pushes\<close> and \<^verbatim>\<open>replacements\<close>, the state, and the exception that left the loop, if any.
\<close>

fun historical_loop ::
  "nat \<Rightarrow> string \<Rightarrow> ResolvedParameterHandler \<Rightarrow> URLState \<Rightarrow> PreviousKey list
     \<Rightarrow> string list \<Rightarrow> string list \<Rightarrow> world
     \<Rightarrow> (string list \<times> string list) \<times> world \<times> error option" where
  "historical_loop t k handler st [] pushes replacements w = ((pushes, replacements), w, None)"
| "historical_loop t k handler st (pk # pks) pushes replacements w =
     (let param = validParam (fullname pk);
          applied = (if apply_opt pk \<noteq> Some False
                     then trySetFromURL st t k param (Some handler) False w
                     else (w, None))
      in (case snd applied of
            Some e \<Rightarrow> ((pushes, replacements), fst applied, Some e)
          | None \<Rightarrow>
              (if remove_opt pk \<noteq> Some False then
                 (if behavior_opt pk = Some Push
                  then historical_loop t k handler st pks (pushes @ [param]) replacements
                         (fst applied)
                  else historical_loop t k handler st pks pushes (replacements @ [param])
                         (fst applied))
               else historical_loop t k handler st pks pushes replacements (fst applied))))"

definition removals :: "string list \<Rightarrow> (string \<times> encoded option) list" where
  "removals ps = map (\<lambda>p. (p, None)) ps"

definition tryProcessHistoricalKeys ::
  "nat \<Rightarrow> string \<Rightarrow> ResolvedParameterHandler \<Rightarrow> URLState \<Rightarrow> world \<Rightarrow> world \<times> error option" where
  "tryProcessHistoricalKeys t k handler st w =
     (case previousKeys handler of
        None \<Rightarrow> (w, None)
      | Some pks \<Rightarrow>
          (case historical_loop t k handler st pks [] [] w of
             ((pushes, replacements), w1, Some e) \<Rightarrow> (w1, Some e)
           | ((pushes, replacements), w1, None) \<Rightarrow>
               (let w2 = (if pushes \<noteq> [] then batchTrigger (removals pushes) Push w1 else w1);
                    w3 = (if replacements \<noteq> []
                          then batchTrigger (removals replacements) Replace w2 else w2)
                in (w3, None))))"

subsection \<open>The binding engine\<close>

definition map_binding :: "nat \<Rightarrow> (Binding \<Rightarrow> Binding) \<Rightarrow> world \<Rightarrow> world" where
  "map_binding b f w =
     w\<lparr> bindings := (if b < length (bindings w)
                      then (bindings w)[b := f (bindings w ! b)] else bindings w) \<rparr>"

text \<open>\<^verbatim>\<open>Map.set\<close> on an insertion-ordered map.\<close>

fun map_set :: "string \<Rightarrow> string \<Rightarrow> (string \<times> string) list \<Rightarrow> (string \<times> string) list" where
  "map_set k v [] = [(k, v)]"
| "map_set k v (p # ps) = (if fst p = k then (k, v) # ps else p # map_set k v ps)"

text \<open>
  \<^verbatim>\<open>setupEffect\<close> up to the registration of the write-back effect, which is the reactive
  collaborator's to run. \<open>b\<close> names the binding, whose target is \<open>t\<close>.
\<close>

definition setupEffect ::
  "nat \<Rightarrow> nat \<Rightarrow> string \<Rightarrow> ParameterHandler \<Rightarrow> Options option \<Rightarrow> URLState \<Rightarrow> world
     \<Rightarrow> world \<times> error option" where
  "setupEffect b t k input options st w =
     (let handler = verbosify input k options in
      (case safeSetHandler handler w of
         Inl e \<Rightarrow> (w, Some e)
       | Inr w1 \<Rightarrow>
           (let w2 = map_binding b (\<lambda>x. x\<lparr> paramByKey := map_set k (key handler) (paramByKey x) \<rparr>) w1
            in (case tryProcessHistoricalKeys t k handler st w2 of
                  (w3, Some e) \<Rightarrow> (w3, Some e)
                | (w3, None) \<Rightarrow> trySetFromURL st t k (key handler) (Some handler) True w3))))"


text \<open>
  \<^verbatim>\<open>dispose\<close>: the loop over \<^verbatim>\<open>paramByKey.values()\<close>, then the rest. The closures
  \<^verbatim>\<open>dispose\<close> and \<^verbatim>\<open>updatePrefix\<close> exist for a binding of the world only: for a position that
  names none, the functions below leave the world as it is.
\<close>

fun delete_all :: "string list \<Rightarrow> world \<Rightarrow> world" where
  "delete_all [] w = w"
| "delete_all (p # ps) w = delete_all ps (delete p w)"

definition dispose :: "nat \<Rightarrow> world \<Rightarrow> world" where
  "dispose b w =
     (if b < length (bindings w) \<and> \<not> disposed (bindings w ! b) then
        map_binding b (\<lambda>x. x\<lparr> paramByKey := [], listening := False \<rparr>)
          (delete_all (map snd (paramByKey (bindings w ! b)))
             (map_binding b (\<lambda>x. x\<lparr> disposed := True \<rparr>) w))
      else w)"

text \<open>
  \<^verbatim>\<open>updatePrefix\<close>: the loop over the entries of \<^verbatim>\<open>paramByKey\<close>, collecting \<^verbatim>\<open>updates\<close>, then
  \<^verbatim>\<open>trySetURLParams\<close>. A parameter without a registered handler makes
  \<^verbatim>\<open>handler.key = ...\<close> raise a TypeError.
\<close>

fun updatePrefix_loop ::
  "nat \<Rightarrow> nat \<Rightarrow> string \<Rightarrow> (string \<times> string) list \<Rightarrow> (string \<times> encoded option) list
     \<Rightarrow> world \<Rightarrow> (string \<times> encoded option) list \<times> world \<times> error option" where
  "updatePrefix_loop b t prefix [] updates w = (updates, w, None)"
| "updatePrefix_loop b t prefix (kp # kps) updates w =
     (case handlerByParam w (snd kp) of
        None \<Rightarrow> (updates, w, Some TypeError)
      | Some h \<Rightarrow>
          (let handler = h\<lparr> key := validParam (prefix @ fst kp) \<rparr>;
               w1 = delete (snd kp) w;
               w2 = unsafeSetHandler handler w1;
               w3 = map_binding b
                      (\<lambda>x. x\<lparr> paramByKey := map_set (fst kp) (key handler) (paramByKey x) \<rparr>) w2
           in updatePrefix_loop b t prefix kps
                (updates @ [(key handler, Some (parameterize (objects w3 t (fst kp)) handler))])
                w3))"

definition updatePrefix :: "nat \<Rightarrow> string \<Rightarrow> world \<Rightarrow> world \<times> error option" where
  "updatePrefix b prefix w =
     (if b < length (bindings w) then
        (case updatePrefix_loop b (target (bindings w ! b)) prefix (paramByKey (bindings w ! b)) [] w of
           (updates, w1, Some e) \<Rightarrow> (w1, Some e)
         | (updates, w1, None) \<Rightarrow> (trySetURLParams updates Replace w1, None))
      else (w, None))"

text \<open>
  \<^verbatim>\<open>URLParameterize\<close>: the listener is registered, then \<^verbatim>\<open>$effect.root\<close> runs
  \<^verbatim>\<open>setupEffect\<close> for each handler on one snapshot; an exception leaves the loop and
  reaches the caller. Without the History API the call returns the inert stubs and
  makes no binding (\<open>None\<close>).
\<close>

fun setup_all ::
  "nat \<Rightarrow> nat \<Rightarrow> (string \<times> ParameterHandler) list \<Rightarrow> Options option \<Rightarrow> URLState \<Rightarrow> world
     \<Rightarrow> world \<times> error option" where
  "setup_all b t [] options st w = (w, None)"
| "setup_all b t (kh # khs) options st w =
     (case snd (setupEffect b t (fst kh) (snd kh) options st w) of
        Some e \<Rightarrow> setupEffect b t (fst kh) (snd kh) options st w
      | None \<Rightarrow> setup_all b t khs options st (fst (setupEffect b t (fst kh) (snd kh) options st w)))"

definition URLParameterize ::
  "nat \<Rightarrow> (string \<times> ParameterHandler) list \<Rightarrow> Options option \<Rightarrow> world
     \<Rightarrow> nat option \<times> world \<times> error option" where
  "URLParameterize t handlers options w =
     (if \<not> fst (setupListener w) then (None, snd (setupListener w), None)
      else
        (let w1 = (snd (setupListener w))
                    \<lparr> bindings := bindings w @ [\<lparr> target = t, paramByKey = [], disposed = False,
                                                  listening = True \<rparr>] \<rparr>
         in (Some (length (bindings w)),
             setup_all (length (bindings w)) t handlers options (getURLState (location w1)) w1)))"

section \<open>Facts about the URL primitives\<close>




lemma char_of_div_mod: "char_of (16 * ((of_char c :: nat) div 16) + (of_char c :: nat) mod 16) = c"
  by simp











subsection \<open>Snapshots\<close>

text \<open>What a snapshot holds for a name, from the values the query has for it.\<close>

definition entry_of :: "string list \<Rightarrow> param_value option" where
  "entry_of vs = (case vs of [] \<Rightarrow> None | [v] \<Rightarrow> Some (One v) | _ \<Rightarrow> Some (Many vs))"

lemma entry_of_snoc:
  "entry_of (vs @ [y]) =
     (case entry_of vs of
        None \<Rightarrow> Some (One y)
      | Some (One e) \<Rightarrow> Some (Many [e, y])
      | Some (Many es) \<Rightarrow> Some (Many (es @ [y])))"
proof (cases vs)
  case Nil
  then show ?thesis by (simp add: entry_of_def)
next
  case (Cons a as)
  then show ?thesis by (cases as) (simp_all add: entry_of_def)
qed

lemma getURLState_snoc: "getURLState (ps @ [x]) = state_add (getURLState ps) x"
  by (simp add: getURLState_def)

lemma getURLState_entry: "getURLState ps p = entry_of (sp_getAll p ps)"
proof (induction ps rule: rev_induct)
  case Nil
  then show ?case by (simp add: getURLState_def sp_getAll_def entry_of_def)
next
  case (snoc x ps)
  show ?case
  proof (cases "fst x = p")
    case True
    then have "sp_getAll p (ps @ [x]) = sp_getAll p ps @ [snd x]"
      by (simp add: sp_getAll_def)
    then show ?thesis
      using True snoc
      by (simp add: getURLState_snoc state_add_def entry_of_snoc
               split: option.splits param_value.splits)
  next
    case False
    then have "sp_getAll p (ps @ [x]) = sp_getAll p ps"
      by (simp add: sp_getAll_def)
    then show ?thesis
      using False snoc
      by (simp add: getURLState_snoc state_add_def split: option.splits param_value.splits)
  qed
qed

lemma entry_of_None: "entry_of vs = None \<longleftrightarrow> vs = []"
  by (cases vs; cases "tl vs") (auto simp: entry_of_def split: list.splits)


lemma entry_of_Many: "entry_of vs = Some (Many xs) \<Longrightarrow> xs = vs \<and> 2 \<le> length vs"
  by (auto simp: entry_of_def split: list.splits)

lemma sp_has_getAll: "sp_has p ps \<longleftrightarrow> sp_getAll p ps \<noteq> []"
  by (induction ps) (auto simp: sp_has_def sp_getAll_def)

lemma getURLState_None: "getURLState ps p = None \<longleftrightarrow> \<not> sp_has p ps"
  by (simp add: getURLState_entry entry_of_None sp_has_getAll)

lemma getAll_delete: "sp_getAll q (sp_delete p ps) = (if q = p then [] else sp_getAll q ps)"
  by (induction ps) (auto simp: sp_getAll_def sp_delete_def)

lemma getAll_append: "sp_getAll q (sp_append p v ps) = sp_getAll q ps @ (if q = p then [v] else [])"
  by (simp add: sp_getAll_def sp_append_def)

lemma getAll_set: "sp_getAll q (sp_set p v ps) = (if q = p then [v] else sp_getAll q ps)"
proof (induction ps)
  case Nil
  then show ?case by (simp add: sp_getAll_def)
next
  case (Cons a ps)
  then show ?case
    using getAll_delete [of q p ps] by (auto simp: sp_getAll_def)
qed

lemma getAll_appends:
  "sp_getAll q (foldl (\<lambda>u v. sp_append p v u) ps vs) = sp_getAll q ps @ (if q = p then vs else [])"
  by (induction vs arbitrary: ps) (auto simp: getAll_append)

lemma getAll_modify:
  "sp_getAll q (modifySearchParam p v ps) =
     (if q = p then (case v of None \<Rightarrow> [] | Some x \<Rightarrow> written_values x) else sp_getAll q ps)"
  by (cases "(p, v, ps)" rule: modifySearchParam.cases)
     (auto simp: getAll_delete getAll_set getAll_appends written_values_def)

section \<open>What a notification leaves alone\<close>

text \<open>
  Reading a snapshot writes fields and cache entries only: the address, the history calls,
  the registry, the bindings and the debouncer stay as they are.
\<close>

definition same_frame :: "world \<Rightarrow> world \<Rightarrow> bool" where
  "same_frame w w' \<longleftrightarrow>
     location w' = location w \<and> navigations w' = navigations w \<and>
     handlerByParam w' = handlerByParam w \<and> bindings w' = bindings w \<and>
     debouncer w' = debouncer w \<and> setupComplete w' = setupComplete w \<and>
     supportsHistory w' = supportsHistory w"

lemma same_frame_refl: "same_frame w w"
  by (simp add: same_frame_def)

lemma same_frame_trans: "same_frame a b \<Longrightarrow> same_frame b c \<Longrightarrow> same_frame a c"
  by (simp add: same_frame_def)

lemma same_frame_set_field: "same_frame w (set_field t k v w)"
  by (simp add: same_frame_def set_field_def)

lemma same_frame_cache: "same_frame w (cache p c w)"
  by (simp add: same_frame_def cache_def)

lemma same_frame_multiple: "same_frame w (fst (trySetFromURL_multiple h vs t k p dc w))"
  by (auto simp: trySetFromURL_multiple_def Let_def same_frame_def set_field_def cache_def
           split: option.splits sum.splits)

lemma same_frame_single: "same_frame w (fst (trySetFromURL_single h v t k p dc w))"
  by (auto simp: trySetFromURL_single_def Let_def same_frame_def set_field_def cache_def
           split: option.splits sum.splits)

lemma same_frame_trySetFromURL: "same_frame w (fst (trySetFromURL st t k p h dc w))"
proof -
  have a: "same_frame w (w\<lparr>cachedByParam := c\<rparr>)" for c by (simp add: same_frame_def)
  have b: "same_frame w (set_field t k v (w\<lparr>cachedByParam := c\<rparr>))" for c v
    by (simp add: same_frame_def set_field_def)
  show ?thesis
    unfolding trySetFromURL_def Let_def
    using a b same_frame_multiple same_frame_single same_frame_refl
    by (auto split: option.splits param_value.splits)
qed

lemma same_frame_onURLChange: "same_frame w (onURLChange st t kps w)"
proof (induction kps arbitrary: w)
  case Nil
  then show ?case by (simp add: same_frame_refl)
next
  case (Cons kp kps)
  show ?case
    using same_frame_trySetFromURL [of w st t "fst kp" "snd kp" None True]
          Cons [of "fst (trySetFromURL st t (fst kp) (snd kp) None True w)"]
    by (auto split: option.splits intro: same_frame_trans)
qed

lemma same_frame_dispatch: "same_frame w (dispatch st bs w)"
proof (induction bs arbitrary: w)
  case Nil
  then show ?case by (simp add: same_frame_refl)
next
  case (Cons b bs)
  show ?case
    using same_frame_onURLChange [of w st "target b" "paramByKey b"]
          Cons [of "onURLChange st (target b) (paramByKey b) w"] Cons [of w]
    by (auto intro: same_frame_trans)
qed

lemma same_frame_emit: "same_frame w (emit w)"
  by (simp add: emit_def same_frame_dispatch)

section \<open>Facts about commits and deletions\<close>

lemma clearTimeout_maps:
  "idleTimers (clearTimeout h d) = idleTimers d" "maxTimers (clearTimeout h d) = maxTimers d"
  "callbacks (clearTimeout h d) = callbacks d"
  by (cases h; simp add: clearTimeout_def)+

lemma clear_maps:
  "idleTimers (clear p d) = (idleTimers d)(p := None)"
  "maxTimers (clear p d) = (maxTimers d)(p := None)"
  "callbacks (clear p d) = (callbacks d)(p := None)"
  by (simp_all add: clear_def Let_def clearTimeout_maps)

lemma cache_absent_multiple:
  "q \<noteq> p \<Longrightarrow> cachedByParam (fst (trySetFromURL_multiple h vs t k p dc w)) q = cachedByParam w q"
  by (auto simp: trySetFromURL_multiple_def Let_def set_field_def cache_def
           split: option.splits sum.splits)

lemma cache_absent_single:
  "q \<noteq> p \<Longrightarrow> cachedByParam (fst (trySetFromURL_single h v t k p dc w)) q = cachedByParam w q"
  by (auto simp: trySetFromURL_single_def Let_def set_field_def cache_def
           split: option.splits sum.splits)

lemma cache_other_trySetFromURL:
  "q \<noteq> p \<Longrightarrow> cachedByParam (fst (trySetFromURL st t k p h dc w)) q = cachedByParam w q"
  by (auto simp: trySetFromURL_def Let_def set_field_def cache_absent_multiple cache_absent_single
           split: option.splits param_value.splits)

lemma cache_absent_trySetFromURL:
  assumes "st q = None" "cachedByParam w q = None"
  shows "cachedByParam (fst (trySetFromURL st t k p h dc w)) q = None"
proof (cases "q = p")
  case True
  then show ?thesis using assms by (simp add: trySetFromURL_def Let_def set_field_def)
next
  case False
  then show ?thesis using assms by (simp add: cache_other_trySetFromURL)
qed

lemma cache_absent_onURLChange:
  "st q = None \<Longrightarrow> cachedByParam w q = None \<Longrightarrow> cachedByParam (onURLChange st t kps w) q = None"
proof (induction kps arbitrary: w)
  case Nil
  then show ?case by simp
next
  case (Cons kp kps)
  have step: "cachedByParam (fst (trySetFromURL st t (fst kp) (snd kp) None True w)) q = None"
    using Cons.prems by (rule cache_absent_trySetFromURL)
  show ?case
    using step Cons.IH [OF Cons.prems(1) step] by (simp split: option.splits)
qed

lemma cache_absent_dispatch:
  "st q = None \<Longrightarrow> cachedByParam w q = None \<Longrightarrow> cachedByParam (dispatch st bs w) q = None"
proof (induction bs arbitrary: w)
  case Nil
  then show ?case by simp
next
  case (Cons b bs)
  then show ?case by (simp add: cache_absent_onURLChange)
qed

lemma cache_absent_emit:
  "\<not> sp_has q (location w) \<Longrightarrow> cachedByParam w q = None \<Longrightarrow> cachedByParam (emit w) q = None"
  by (simp add: emit_def cache_absent_dispatch getURLState_None)

lemma commit_frame:
  assumes "setupComplete w"
  shows "location (commit url beh w) = url"
    and "navigations (commit url beh w) = navigations w @ [(beh, url)]"
    and "handlerByParam (commit url beh w) = handlerByParam w"
    and "bindings (commit url beh w) = bindings w"
    and "debouncer (commit url beh w) = debouncer w"
    and "setupComplete (commit url beh w)"
    and "supportsHistory (commit url beh w) = supportsHistory w"
proof -
  let ?w1 = "w\<lparr> location := url, navigations := navigations w @ [(beh, url)] \<rparr>"
  have c: "commit url beh w = emit ?w1"
    using assms by (simp add: commit_def setupListener_def)
  have "same_frame ?w1 (emit ?w1)" by (rule same_frame_emit)
  then show "location (commit url beh w) = url"
    and "navigations (commit url beh w) = navigations w @ [(beh, url)]"
    and "handlerByParam (commit url beh w) = handlerByParam w"
    and "bindings (commit url beh w) = bindings w"
    and "debouncer (commit url beh w) = debouncer w"
    and "setupComplete (commit url beh w)"
    and "supportsHistory (commit url beh w) = supportsHistory w"
    using assms unfolding c by (simp_all add: same_frame_def)
qed

lemma commit_cache_absent:
  assumes "setupComplete w" "\<not> sp_has q url" "cachedByParam w q = None"
  shows "cachedByParam (commit url beh w) q = None"
proof -
  let ?w1 = "w\<lparr> location := url, navigations := navigations w @ [(beh, url)] \<rparr>"
  have c: "commit url beh w = emit ?w1"
    using assms by (simp add: commit_def setupListener_def)
  show ?thesis unfolding c using assms by (intro cache_absent_emit) simp_all
qed

lemma sp_has_delete: "sp_has q (sp_delete p url) \<longleftrightarrow> q \<noteq> p \<and> sp_has q url"
  by (simp add: sp_has_getAll getAll_delete)

lemma delete_frame:
  assumes "setupComplete w"
  shows "location (delete p w) = sp_delete p (location w)"
    and "navigations (delete p w) = navigations w @ [(Replace, sp_delete p (location w))]"
    and "handlerByParam (delete p w) = (handlerByParam w)(p := None)"
    and "bindings (delete p w) = bindings w"
    and "debouncer (delete p w) = clear p (debouncer w)"
    and "setupComplete (delete p w)"
    and "cachedByParam (delete p w) p = None"
  using assms
  by (simp_all add: delete_def trigger_def commit_frame commit_cache_absent sp_has_delete)

lemma delete_cache_absent:
  assumes "setupComplete w" "\<not> sp_has q (location w)" "cachedByParam w q = None"
  shows "cachedByParam (delete p w) q = None"
  using assms
  by (simp add: delete_def trigger_def commit_cache_absent sp_has_delete)

text \<open>
  The history calls that removing the parameters \<open>ps\<close> one at a time makes, starting from
  the address \<open>url\<close>: one \<^verbatim>\<open>replaceState\<close> per parameter.
\<close>

fun removal_commits ::
  "string list \<Rightarrow> search_params \<Rightarrow> (UpdateHistoryBehavior \<times> search_params) list" where
  "removal_commits [] url = []"
| "removal_commits (p # ps) url = (Replace, sp_delete p url) # removal_commits ps (sp_delete p url)"

text \<open>Nothing is left of a parameter: no handler, cache entry, debounce entry or query entry.\<close>

definition released :: "string \<Rightarrow> world \<Rightarrow> bool" where
  "released p w \<longleftrightarrow>
     handlerByParam w p = None \<and> cachedByParam w p = None \<and>
     callbacks (debouncer w) p = None \<and> idleTimers (debouncer w) p = None \<and>
     maxTimers (debouncer w) p = None \<and> \<not> sp_has p (location w)"

lemma released_delete_same: "setupComplete w \<Longrightarrow> released p (delete p w)"
  by (simp add: released_def delete_frame clear_maps sp_has_delete)

lemma released_delete_other: "setupComplete w \<Longrightarrow> released q w \<Longrightarrow> released q (delete p w)"
  by (simp add: released_def delete_frame clear_maps sp_has_delete delete_cache_absent)

lemma delete_all_frame:
  "setupComplete w \<Longrightarrow>
     navigations (delete_all ps w) = navigations w @ removal_commits ps (location w) \<and>
     bindings (delete_all ps w) = bindings w \<and> setupComplete (delete_all ps w)"
proof (induction ps arbitrary: w)
  case Nil
  then show ?case by simp
next
  case (Cons p ps)
  have sc: "setupComplete (delete p w)" using Cons.prems by (simp add: delete_frame)
  show ?case
    using Cons.IH [OF sc] Cons.prems by (simp add: delete_frame)
qed

lemma delete_all_keeps_released:
  "setupComplete w \<Longrightarrow> released q w \<Longrightarrow> released q (delete_all ps w)"
proof (induction ps arbitrary: w)
  case Nil
  then show ?case by simp
next
  case (Cons p ps)
  have sc: "setupComplete (delete p w)" using Cons.prems by (simp add: delete_frame)
  show ?case
    using Cons.IH [OF sc released_delete_other [OF Cons.prems]] by simp
qed

lemma delete_all_releases:
  "setupComplete w \<Longrightarrow> q \<in> set ps \<Longrightarrow> released q (delete_all ps w)"
proof (induction ps arbitrary: w)
  case Nil
  then show ?case by simp
next
  case (Cons p ps)
  have sc: "setupComplete (delete p w)" using Cons.prems by (simp add: delete_frame)
  show ?case
  proof (cases "q = p")
    case True
    then show ?thesis
      using delete_all_keeps_released [OF sc released_delete_same [OF Cons.prems(1)]] by simp
  next
    case False
    then show ?thesis using Cons.IH [OF sc] Cons.prems by simp
  qed
qed

lemma released_map_binding: "released q (map_binding b f w) = released q w"
  by (simp add: released_def map_binding_def)





section \<open>Facts about notifications\<close>










lemma get_own: "sp_get p (map (\<lambda>v. (p, v)) vs) = (case vs of [] \<Rightarrow> None | v # _ \<Rightarrow> Some v)"
  by (cases vs) (simp_all add: sp_get_def)

























section \<open>Facts about the prefix change\<close>

text \<open>
  The key a field gets from \<^verbatim>\<open>updatePrefix\<close>, the address after a run of deletions, and the
  \<^verbatim>\<open>paramByKey\<close> map after the loop has renamed the entries \<open>kps\<close>.
\<close>

definition new_key :: "string \<Rightarrow> string \<times> string \<Rightarrow> string" where
  "new_key prefix kp = validParam (prefix @ fst kp)"

fun delete_params :: "string list \<Rightarrow> search_params \<Rightarrow> search_params" where
  "delete_params [] url = url"
| "delete_params (p # ps) url = delete_params ps (sp_delete p url)"

definition rename :: "string \<Rightarrow> (string \<times> string) list \<Rightarrow> (string \<times> string) list \<Rightarrow> (string \<times> string) list" where
  "rename prefix kps m = foldl (\<lambda>m kp. map_set (fst kp) (new_key prefix kp) m) m kps"

lemma updatePrefix_step:
  assumes "setupComplete w" and "handlerByParam w (snd kp) = Some h"
  shows "updatePrefix_loop b t prefix (kp # kps) updates w =
           updatePrefix_loop b t prefix kps
             (updates @ [(new_key prefix kp,
                          Some (parameterize (objects (delete (snd kp) w) t (fst kp))
                                  (h\<lparr> key := new_key prefix kp \<rparr>)))])
             (map_binding b (\<lambda>x. x\<lparr> paramByKey := map_set (fst kp) (new_key prefix kp) (paramByKey x) \<rparr>)
                (unsafeSetHandler (h\<lparr> key := new_key prefix kp \<rparr>) (delete (snd kp) w)))"
  using assms by (simp add: Let_def new_key_def map_binding_def unsafeSetHandler_def)

lemma step_world:
  assumes "setupComplete w"
  shows "setupComplete (map_binding b f (unsafeSetHandler h (delete p w)))"
    and "navigations (map_binding b f (unsafeSetHandler h (delete p w)))
           = navigations w @ [(Replace, sp_delete p (location w))]"
    and "location (map_binding b f (unsafeSetHandler h (delete p w))) = sp_delete p (location w)"
    and "handlerByParam (map_binding b f (unsafeSetHandler h (delete p w)))
           = (handlerByParam w)(p := None, key h \<mapsto> h)"
    and "cachedByParam (map_binding b f (unsafeSetHandler h (delete p w)))
           = cachedByParam (delete p w)"
    and "objects (map_binding b f (unsafeSetHandler h (delete p w))) = objects (delete p w)"
    and "bindings (map_binding b f (unsafeSetHandler h (delete p w)))
           = (if b < length (bindings w) then (bindings w)[b := f (bindings w ! b)]
              else bindings w)"
  using assms
  by (simp_all add: map_binding_def unsafeSetHandler_def delete_frame)

lemma updatePrefix_loop_frame:
  assumes "setupComplete w" and "b < length (bindings w)"
    and "distinct (map snd kps)"
    and "list_all (\<lambda>kp. handlerByParam w (snd kp) \<noteq> None) kps"
  shows "snd (snd (updatePrefix_loop b t prefix kps updates w)) = None \<and>
         setupComplete (fst (snd (updatePrefix_loop b t prefix kps updates w))) \<and>
         navigations (fst (snd (updatePrefix_loop b t prefix kps updates w)))
           = navigations w @ removal_commits (map snd kps) (location w) \<and>
         location (fst (snd (updatePrefix_loop b t prefix kps updates w)))
           = delete_params (map snd kps) (location w) \<and>
         bindings (fst (snd (updatePrefix_loop b t prefix kps updates w)))
           = (bindings w)[b := (bindings w ! b)\<lparr> paramByKey :=
                                   rename prefix kps (paramByKey (bindings w ! b)) \<rparr>] \<and>
         map fst (fst (updatePrefix_loop b t prefix kps updates w))
           = map fst updates @ map (new_key prefix) kps"
  using assms
proof (induction kps arbitrary: updates w)
  case Nil
  then show ?case by (simp add: rename_def)
next
  case (Cons kp kps)
  obtain h where h: "handlerByParam w (snd kp) = Some h" using Cons.prems(4) by auto
  let ?h = "h\<lparr> key := new_key prefix kp \<rparr>"
  let ?f = "\<lambda>x. x\<lparr> paramByKey := map_set (fst kp) (new_key prefix kp) (paramByKey x) \<rparr>"
  let ?w3 = "map_binding b ?f (unsafeSetHandler ?h (delete (snd kp) w))"
  let ?u = "updates @ [(new_key prefix kp,
                        Some (parameterize (objects (delete (snd kp) w) t (fst kp)) ?h))]"
  note sw = step_world [OF Cons.prems(1), of b ?f ?h "snd kp"]
  have reg: "list_all (\<lambda>kp'. handlerByParam ?w3 (snd kp') \<noteq> None) kps"
  proof -
    have "handlerByParam ?w3 (snd kp') \<noteq> None" if "kp' \<in> set kps" for kp'
    proof -
      have "snd kp \<notin> snd ` set kps" using Cons.prems(3) by simp
      moreover have "snd kp' \<in> snd ` set kps" using that by (rule imageI)
      ultimately have "snd kp' \<noteq> snd kp" by metis
      moreover have "handlerByParam w (snd kp') \<noteq> None"
        using Cons.prems(4) that by (simp add: list_all_iff)
      ultimately show ?thesis by (simp add: sw(4))
    qed
    then show ?thesis by (simp add: list_all_iff)
  qed
  have len: "b < length (bindings ?w3)" using Cons.prems(2) by (simp add: sw(7))
  have dist: "distinct (map snd kps)" using Cons.prems(3) by simp
  note IH = Cons.IH [OF sw(1) len dist reg, of ?u]
  show ?case
    unfolding updatePrefix_step [OF Cons.prems(1) h]
    using IH Cons.prems(2)
    by (simp add: sw rename_def)
qed

lemma filter_changed_frame:
  "location (snd (filter_changed pvs w)) = location w \<and>
   navigations (snd (filter_changed pvs w)) = navigations w \<and>
   setupComplete (snd (filter_changed pvs w)) = setupComplete w \<and>
   bindings (snd (filter_changed pvs w)) = bindings w \<and>
   objects (snd (filter_changed pvs w)) = objects w \<and>
   handlerByParam (snd (filter_changed pvs w)) = handlerByParam w"
  by (induction pvs arbitrary: w) (simp_all add: cache_def)

lemma filter_changed_cache_other:
  "q \<notin> fst ` set pvs \<Longrightarrow> cachedByParam (snd (filter_changed pvs w)) q = cachedByParam w q"
  by (induction pvs arbitrary: w) (auto simp: cache_def)

lemma fst_differs: "x \<in> set xs \<Longrightarrow> k \<notin> fst ` set xs \<Longrightarrow> fst x \<noteq> k"
  by (metis imageI)

lemma snd_differs: "x \<in> set xs \<Longrightarrow> p \<notin> snd ` set xs \<Longrightarrow> snd x \<noteq> p"
  by (metis imageI)

lemma filter_changed_all:
  assumes "distinct (map fst pvs)" and "list_all (\<lambda>pv. cachedByParam w (fst pv) = None) pvs"
  shows "fst (filter_changed pvs w) = pvs \<and>
         list_all (\<lambda>pv. cachedByParam (snd (filter_changed pvs w)) (fst pv) = Some (cachify_entry pv)) pvs"
  using assms
proof (induction pvs arbitrary: w)
  case Nil
  then show ?case by simp
next
  case (Cons pv pvs)
  let ?w1 = "cache (fst pv) (cachify_entry pv) w"
  have dist: "distinct (map fst pvs)" using Cons.prems(1) by simp
  have notin: "fst pv \<notin> fst ` set pvs" using Cons.prems(1) by simp
  have "cachedByParam ?w1 (fst pv') = None" if "pv' \<in> set pvs" for pv'
    using fst_differs [OF that notin] Cons.prems(2) that by (simp add: list_all_iff cache_def)
  then have none: "list_all (\<lambda>pv'. cachedByParam ?w1 (fst pv') = None) pvs"
    by (simp add: list_all_iff)
  have here: "cachedByParam (snd (filter_changed pvs ?w1)) (fst pv) = Some (cachify_entry pv)"
    using filter_changed_cache_other [OF notin, of ?w1] by (simp add: cache_def)
  show ?case
    using Cons.IH [OF dist none] Cons.prems(2) here by simp
qed

lemma getAll_modify_all_other:
  "q \<notin> fst ` set pvs \<Longrightarrow>
     sp_getAll q (foldl (\<lambda>url pv. modifySearchParam (fst pv) (snd pv) url) url pvs) = sp_getAll q url"
  by (induction pvs arbitrary: url) (auto simp: getAll_modify)

lemma getAll_modify_all:
  assumes "distinct (map fst pvs)" and "pv \<in> set pvs"
  shows "sp_getAll (fst pv) (foldl (\<lambda>url pv. modifySearchParam (fst pv) (snd pv) url) url pvs)
           = (case snd pv of None \<Rightarrow> [] | Some x \<Rightarrow> written_values x)"
  using assms
proof (induction pvs arbitrary: url)
  case Nil
  then show ?case by simp
next
  case (Cons a pvs)
  show ?case
  proof (cases "pv = a")
    case True
    have "fst a \<notin> fst ` set pvs" using Cons.prems(1) by simp
    then show ?thesis
      using True getAll_modify_all_other [of "fst a" pvs "modifySearchParam (fst a) (snd a) url"]
      by (simp add: getAll_modify)
  next
    case False
    then show ?thesis using Cons by simp
  qed
qed

lemma getAll_delete_params:
  "sp_getAll q (delete_params ps url) = (if q \<in> set ps then [] else sp_getAll q url)"
  by (induction ps arbitrary: url) (auto simp: getAll_delete)

lemma removal_commits_append:
  "removal_commits (ps @ qs) url = removal_commits ps url @ removal_commits qs (delete_params ps url)"
  by (induction ps arbitrary: url) simp_all

lemma delete_params_append:
  "delete_params (ps @ qs) url = delete_params qs (delete_params ps url)"
  by (induction ps arbitrary: url) simp_all

lemma trySetURLParams_frame:
  assumes "setupComplete w"
  shows "navigations (trySetURLParams pvs beh w) = navigations w @ [(beh, location (trySetURLParams pvs beh w))]"
    and "bindings (trySetURLParams pvs beh w) = bindings w"
    and "handlerByParam (trySetURLParams pvs beh w) = handlerByParam w"
  using assms filter_changed_frame [of pvs w]
  by (simp_all add: trySetURLParams_def batchTrigger_def commit_frame)

text \<open>Map entries renamed in place.\<close>

lemma map_set_append:
  "k \<notin> fst ` set xs \<Longrightarrow> map_set k v (xs @ (k, p) # ys) = xs @ (k, v) # ys"
  by (induction xs) auto

lemma rename_own_aux:
  "distinct (map fst (ds @ kps)) \<Longrightarrow>
     rename prefix kps (map (\<lambda>kp. (fst kp, new_key prefix kp)) ds @ kps)
       = map (\<lambda>kp. (fst kp, new_key prefix kp)) (ds @ kps)"
proof (induction kps arbitrary: ds)
  case Nil
  then show ?case by (simp add: rename_def)
next
  case (Cons kp kps)
  have notin: "fst kp \<notin> fst ` set (map (\<lambda>kp. (fst kp, new_key prefix kp)) ds)"
    using Cons.prems by (auto simp: image_iff)
  have "map_set (fst kp) (new_key prefix kp) (map (\<lambda>kp. (fst kp, new_key prefix kp)) ds @ kp # kps)
          = map (\<lambda>kp. (fst kp, new_key prefix kp)) (ds @ [kp]) @ kps"
    using map_set_append [OF notin, of "new_key prefix kp" "snd kp" kps] by simp
  then show ?case
    using Cons.IH [of "ds @ [kp]"] Cons.prems by (simp add: rename_def)
qed

lemma rename_own:
  "distinct (map fst kps) \<Longrightarrow> rename prefix kps kps = map (\<lambda>kp. (fst kp, new_key prefix kp)) kps"
  using rename_own_aux [of "[]" kps prefix] by simp

lemma updatePrefix_frame:
  assumes "setupComplete w" and "b < length (bindings w)"
    and "distinct (map fst (paramByKey (bindings w ! b)))"
    and "distinct (map snd (paramByKey (bindings w ! b)))"
    and "list_all (\<lambda>kp. handlerByParam w (snd kp) \<noteq> None) (paramByKey (bindings w ! b))"
  shows "snd (updatePrefix b prefix w) = None"
    and "navigations (fst (updatePrefix b prefix w))
           = navigations w @ removal_commits (map snd (paramByKey (bindings w ! b))) (location w)
               @ [(Replace, location (fst (updatePrefix b prefix w)))]"
    and "paramByKey (bindings (fst (updatePrefix b prefix w)) ! b)
           = map (\<lambda>kp. (fst kp, new_key prefix kp)) (paramByKey (bindings w ! b))"
proof -
  let ?kps = "paramByKey (bindings w ! b)"
  let ?R = "updatePrefix_loop b (target (bindings w ! b)) prefix ?kps [] w"
  note fr = updatePrefix_loop_frame [OF assms(1,2,4,5), of "target (bindings w ! b)" prefix "[]"]
  obtain us w1 e where R: "?R = (us, w1, e)" by (cases ?R) auto
  have e: "e = None" and sc: "setupComplete w1"
    and nav: "navigations w1 = navigations w @ removal_commits (map snd ?kps) (location w)"
    and bs: "bindings w1 = (bindings w)[b := (bindings w ! b)\<lparr> paramByKey := rename prefix ?kps ?kps \<rparr>]"
    using fr R by simp_all
  have up: "updatePrefix b prefix w = (trySetURLParams us Replace w1, None)"
    using assms(2) R e by (simp add: updatePrefix_def)
  show "snd (updatePrefix b prefix w) = None" by (simp add: up)
  show "navigations (fst (updatePrefix b prefix w))
           = navigations w @ removal_commits (map snd ?kps) (location w)
               @ [(Replace, location (fst (updatePrefix b prefix w)))]"
    using trySetURLParams_frame(1) [OF sc, of us Replace] by (simp add: up nav)
  show "paramByKey (bindings (fst (updatePrefix b prefix w)) ! b)
           = map (\<lambda>kp. (fst kp, new_key prefix kp)) ?kps"
    using trySetURLParams_frame(2) [OF sc, of us Replace] assms(2)
    by (simp add: up bs rename_own [OF assms(3)])
qed

section \<open>Facts about the default handler\<close>

subsection \<open>Escaping and unescaping a string\<close>














subsection \<open>Writing and reading a JSON string\<close>





subsection \<open>Writing and reading an integer\<close>












subsection \<open>The double of an integer\<close>






subsection \<open>Writing and reading a value\<close>

























subsection \<open>The text of a value is well-formed\<close>










subsection \<open>The default handler\<close>






section \<open>Example bindings\<close>

text \<open>
  A handler in the style of the repository's demo page (\<^verbatim>\<open>serialize: (value) => value\<close>,
  \<^verbatim>\<open>deserialize: (value) => value\<close>) with a plain encoder and decoder, and its variant for
  a field that holds a list.
\<close>

definition text_handler :: "string option \<Rightarrow> VerboseParameterHandler" where
  "text_handler k =
     \<lparr> v_key = k, v_history = None, v_entries = None, v_debounce = DebounceNull,
       v_resolve = (\<lambda>q p i. Inr q),
       v_serialize = Some (\<lambda>v. case v of JStr s \<Rightarrow> Some s | _ \<Rightarrow> None),
       v_deserialize = Some (\<lambda>s. Inr (JStr s)),
       v_decode = Some (\<lambda>s. Inr s),
       v_encode = Some (\<lambda>s. case s of Some x \<Rightarrow> x | None \<Rightarrow> ''undefined''),
       v_previousKeys = None \<rparr>"

definition list_handler :: VerboseParameterHandler where
  "list_handler = (text_handler None)\<lparr> v_entries := Some Multiple \<rparr>"

definition prefix_options :: "string \<Rightarrow> Options" where
  "prefix_options p =
     \<lparr> o_prefix = Some (Plain p), o_debounce = None, o_history = None, o_encode = None,
       o_decode = None, o_deserialize = None, o_serialize = None \<rparr>"

definition idle_debouncer :: "(string, 'cb) MappedDebouncer" where
  "idle_debouncer =
     \<lparr> clock = 0, nextHandle = 0, pending = [], maxTimers = Map.empty, idleTimers = Map.empty,
       callbacks = Map.empty, opts = \<lparr> idleMs = - 1, maxWaitMs = - 1 \<rparr> \<rparr>"

text \<open>
  A page at the address \<^verbatim>\<open>?page=2\<close> with one target object, before any binding is made.
\<close>

definition fresh_world :: world where
  "fresh_world =
     \<lparr> supportsHistory = True, setupComplete = False, location = [(''page'', ''2'')],
       navigations = [], handlerByParam = Map.empty, cachedByParam = Map.empty,
       debouncer = idle_debouncer,
       objects = (\<lambda>t k. if k = ''x'' then JStr ''1'' else if k = ''y'' then JStr ''2''
                         else if k = ''tags'' then JArr [Some (JStr ''p''), Some (JStr ''q'')]
                         else JUndefined),
       bindings = [] \<rparr>"

text \<open>
  The same page after a binding of the fields \<^verbatim>\<open>x\<close> and \<^verbatim>\<open>y\<close> of object 0 under the prefix
  \<^verbatim>\<open>a_\<close>, the second with the explicit key \<^verbatim>\<open>q\<close> and history mode \<^verbatim>\<open>push\<close> for both, once
  both fields have been written to the address.
\<close>

definition bound_world :: world where
  "bound_world =
     \<lparr> supportsHistory = True, setupComplete = True,
       location = [(''page'', ''2''), (''a_x'', ''1''), (''a_q'', ''2'')],
       navigations = [],
       handlerByParam =
         [''a_x'' \<mapsto> verbosify (Verbose (text_handler None)) ''x'' (Some (prefix_options ''a_'')),
          ''a_q'' \<mapsto> verbosify (Verbose (text_handler (Some ''q''))) ''y''
                       (Some (prefix_options ''a_''))],
       cachedByParam = [''a_x'' \<mapsto> ''a_x=1'', ''a_q'' \<mapsto> ''a_q=2''],
       debouncer = idle_debouncer,
       objects = objects fresh_world,
       bindings = [\<lparr> target = 0, paramByKey = [(''x'', ''a_x''), (''y'', ''a_q'')],
                     disposed = False, listening = True \<rparr>] \<rparr>"

lemma valid_lowercase:
  "validParam ''a_x'' = ''a_x''" "validParam ''a_q'' = ''a_q''" "validParam ''b_x'' = ''b_x''"
  "validParam ''b_y'' = ''b_y''" "validParam ''tags'' = ''tags''"
  by (simp_all add: validParam_def encodeURIComponent_def uri_unreserved_def alnum_def)


lemma cachify_nothing: "cachify p [] = []"
  by (simp add: cachify_def)






lemma bound_world_ready:
  "setupComplete bound_world" "0 < length (bindings bound_world)"
  "paramByKey (bindings bound_world ! 0) = [(''x'', ''a_x''), (''y'', ''a_q'')]"
  "distinct (map fst (paramByKey (bindings bound_world ! 0)))"
  "distinct (map snd (paramByKey (bindings bound_world ! 0)))"
  "list_all (\<lambda>kp. handlerByParam bound_world (snd kp) \<noteq> None) (paramByKey (bindings bound_world ! 0))"
  by (simp_all add: bound_world_def)

text \<open>
  Seven \<^verbatim>\<open>enqueue\<close> calls for one key, 30 ms apart from time 0 to time 180, with
  \<^verbatim>\<open>idleMs = 50\<close> and \<^verbatim>\<open>maxWaitMs = 200\<close>; the callbacks are numbered 1 to 7.
\<close>

definition seven_enqueues :: "(int \<times> string \<times> nat \<times> Config option) list" where
  "seven_enqueues =
     map (\<lambda>i. (30 * int i, ''k'', Suc i, Some \<lparr> idleMs = 50, maxWaitMs = 200 \<rparr>)) [0..<7]"

text \<open>
  The migration of the repository's demo page: the page at \<^verbatim>\<open>?greeting=hi\<close>, the field \<^verbatim>\<open>hello\<close> of object 0
  bound with the legacy key \<^verbatim>\<open>greeting\<close> (applied, removed in replace mode), at the point
  where \<^verbatim>\<open>setupEffect\<close> calls \<^verbatim>\<open>tryProcessHistoricalKeys\<close>.
\<close>

definition greeting_key :: PreviousKey where
  "greeting_key = \<lparr> fullname = ''greeting'', remove_opt = None, apply_opt = None, behavior_opt = None \<rparr>"

definition legacy_handler :: ResolvedParameterHandler where
  "legacy_handler =
     verbosify (Verbose ((text_handler None)\<lparr> v_previousKeys := Some [greeting_key] \<rparr>)) ''hello'' None"

definition legacy_world :: world where
  "legacy_world =
     \<lparr> supportsHistory = True, setupComplete = True, location = [(''greeting'', ''hi'')],
       navigations = [], handlerByParam = [''hello'' \<mapsto> legacy_handler],
       cachedByParam = Map.empty, debouncer = idle_debouncer,
       objects = (\<lambda>t k. if k = ''hello'' then JStr ''world'' else JUndefined),
       bindings = [\<lparr> target = 0, paramByKey = [(''hello'', ''hello'')],
                     disposed = False, listening = True \<rparr>] \<rparr>"

lemma valid_greeting: "validParam ''greeting'' = ''greeting''" "validParam ''hello'' = ''hello''"
  by (simp_all add: validParam_def encodeURIComponent_def uri_unreserved_def alnum_def)

text \<open>
  A page at \<^verbatim>\<open>?a_tags=p&a_tags=q\<close> with the list field \<^verbatim>\<open>tags\<close> of object 0, holding
  \<^verbatim>\<open>["p", "q"]\<close>, bound with \<^verbatim>\<open>entries: "multiple"\<close> under the prefix \<^verbatim>\<open>a_\<close>.
\<close>

definition tagged_world :: world where
  "tagged_world =
     \<lparr> supportsHistory = True, setupComplete = True,
       location = [(''a_tags'', ''p''), (''a_tags'', ''q'')],
       navigations = [],
       handlerByParam =
         [''a_tags'' \<mapsto> verbosify (Verbose list_handler) ''tags'' (Some (prefix_options ''a_''))],
       cachedByParam = [''a_tags'' \<mapsto> ''a_tags=p&a_tags=q''],
       debouncer = idle_debouncer,
       objects = objects fresh_world,
       bindings = [\<lparr> target = 0, paramByKey = [(''tags'', ''a_tags'')],
                     disposed = False, listening = True \<rparr>] \<rparr>"

lemma valid_tags: "validParam ''a_tags'' = ''a_tags''" "validParam ''b_tags'' = ''b_tags''"
  by (simp_all add: validParam_def encodeURIComponent_def uri_unreserved_def alnum_def)

lemma tagged_world_renamed:
  "objects tagged_world 0 ''tags'' = JArr [Some (JStr ''p''), Some (JStr ''q'')]"
  "snd (updatePrefix 0 ''b_'' tagged_world) = None"
  "navigations (fst (updatePrefix 0 ''b_'' tagged_world)) = [(Replace, []), (Replace, [])]"
  "location (fst (updatePrefix 0 ''b_'' tagged_world)) = []"
  "objects (fst (updatePrefix 0 ''b_'' tagged_world)) 0 ''tags'' = JArr []"
  "paramByKey (bindings (fst (updatePrefix 0 ''b_'' tagged_world)) ! 0) = [(''tags'', ''b_tags'')]"
  by (simp_all add: updatePrefix_def tagged_world_def fresh_world_def Let_def valid_tags
        delete_def trigger_def commit_def setupListener_def emit_def getURLState_def
        sp_delete_def trySetFromURL_def set_field_def isArray_def unsafeSetHandler_def
        map_binding_def parameterize_def verbosify_def verbose_of_def list_handler_def
        text_handler_def prefix_options_def option_field_def nullish3_def resolve_getter_def
        trySetURLParams_def batchTrigger_def cachify_entry_def cached_values_def spread_def
        cachify_nothing cache_def visited_def)




text \<open>
  A list field migrated from a legacy key: the page at \<^verbatim>\<open>?labels=a&labels=b\<close>, the empty list
  field \<^verbatim>\<open>tags\<close> of object 0 bound with \<^verbatim>\<open>entries: "multiple"\<close> and the legacy key \<^verbatim>\<open>labels\<close>
  (applied, removed in replace mode), at the point where \<^verbatim>\<open>setupEffect\<close> calls
  \<^verbatim>\<open>tryProcessHistoricalKeys\<close>.
\<close>

definition labels_key :: PreviousKey where
  "labels_key = \<lparr> fullname = ''labels'', remove_opt = None, apply_opt = None, behavior_opt = None \<rparr>"

definition labels_handler :: ResolvedParameterHandler where
  "labels_handler =
     verbosify (Verbose (list_handler\<lparr> v_previousKeys := Some [labels_key] \<rparr>)) ''tags'' None"

definition labels_world :: world where
  "labels_world =
     \<lparr> supportsHistory = True, setupComplete = True,
       location = [(''labels'', ''a''), (''labels'', ''b'')],
       navigations = [], handlerByParam = [''tags'' \<mapsto> labels_handler],
       cachedByParam = Map.empty, debouncer = idle_debouncer,
       objects = (\<lambda>t k. if k = ''tags'' then JArr [] else JUndefined),
       bindings = [\<lparr> target = 0, paramByKey = [(''tags'', ''tags'')],
                     disposed = False, listening = True \<rparr>] \<rparr>"

lemma valid_labels: "validParam ''labels'' = ''labels''"
  by (simp add: validParam_def encodeURIComponent_def uri_unreserved_def alnum_def)

lemma labels_world_migrated:
  "objects (fst (snd (historical_loop 0 ''tags'' labels_handler (getURLState (location labels_world))
                        [labels_key] [] [] labels_world))) 0 ''tags''
     = JArr [Some (JStr ''a''), Some (JStr ''b'')]"
  "snd (tryProcessHistoricalKeys 0 ''tags'' labels_handler (getURLState (location labels_world))
          labels_world) = None"
  "navigations (fst (tryProcessHistoricalKeys 0 ''tags'' labels_handler
                       (getURLState (location labels_world)) labels_world)) = [(Replace, [])]"
  "objects (fst (tryProcessHistoricalKeys 0 ''tags'' labels_handler
                   (getURLState (location labels_world)) labels_world)) 0 ''tags'' = JArr []"
  by (simp_all add: tryProcessHistoricalKeys_def labels_world_def labels_handler_def labels_key_def
        Let_def valid_labels valid_lowercase getURLState_def state_add_def
        trySetFromURL_def trySetFromURL_multiple_def supportsMultiple_def set_field_def
        isArray_def new_URLSearchParams_def sp_getAll_def evaluate_def put_index_def splice_def
        verbosify_def verbose_of_def list_handler_def text_handler_def option_field_def
        nullish3_def resolve_getter_def removals_def batchTrigger_def commit_def
        setupListener_def emit_def sp_delete_def)

lemma legacy_world_migrated:
  "snd (tryProcessHistoricalKeys 0 ''hello'' legacy_handler (getURLState (location legacy_world))
          legacy_world) = None"
  "navigations (fst (tryProcessHistoricalKeys 0 ''hello'' legacy_handler
                       (getURLState (location legacy_world)) legacy_world)) = [(Replace, [])]"
  "objects (fst (tryProcessHistoricalKeys 0 ''hello'' legacy_handler
                   (getURLState (location legacy_world)) legacy_world)) 0 ''hello'' = JStr ''hi''"
  by (simp_all add: tryProcessHistoricalKeys_def legacy_world_def legacy_handler_def greeting_key_def
        Let_def valid_greeting getURLState_def state_add_def
        trySetFromURL_def trySetFromURL_single_def supportsMultiple_def set_field_def
        isArray_def new_URLSearchParams_def sp_get_def evaluate_def
        verbosify_def verbose_of_def text_handler_def option_field_def
        nullish3_def resolve_getter_def removals_def batchTrigger_def commit_def
        setupListener_def emit_def sp_delete_def)

section \<open>The claims\<close>

subsection \<open>C8: a key absent from the snapshot\<close>

text \<open>
  C8. When the bound key is absent from the new snapshot, \<^verbatim>\<open>trySetFromURL\<close> raises nothing,
  clears that key's write-cache entry and no other, truncates the field to the empty
  array if it holds an array and leaves it as it is otherwise, and touches nothing else.
\<close>

theorem trySetFromURL_absent_key:
  assumes "\<not> sp_has param url"
  shows "snd (trySetFromURL (getURLState url) t k param handler doCache w) = None \<and>
         cachedByParam (fst (trySetFromURL (getURLState url) t k param handler doCache w))
           = (cachedByParam w)(param := None) \<and>
         objects (fst (trySetFromURL (getURLState url) t k param handler doCache w))
           = (if isArray (objects w t k) then (objects w)(t := (objects w t)(k := JArr []))
              else objects w) \<and>
         same_frame w (fst (trySetFromURL (getURLState url) t k param handler doCache w))"
proof -
  have "getURLState url param = None"
    using assms by (simp add: getURLState_None)
  then show ?thesis
    by (simp add: trySetFromURL_def Let_def set_field_def same_frame_def)
qed

theorem trySetFromURL_absent_key_witness:
  "\<not> sp_has ''tags'' (location fresh_world) \<and>
   objects (fst (trySetFromURL (getURLState (location fresh_world)) 0 ''tags'' ''tags'' None True
                   (cache ''tags'' ''tags=p&tags=q'' fresh_world))) 0 ''tags'' = JArr [] \<and>
   objects (fst (trySetFromURL (getURLState (location fresh_world)) 0 ''x'' ''tags'' None True
                   (cache ''tags'' ''tags=p&tags=q'' fresh_world))) 0 ''x'' = JStr ''1'' \<and>
   cachedByParam (fst (trySetFromURL (getURLState (location fresh_world)) 0 ''tags'' ''tags'' None True
                   (cache ''tags'' ''tags=p&tags=q'' fresh_world))) ''tags'' = None"
proof -
  have absent: "\<not> sp_has ''tags'' (location fresh_world)"
    by (simp add: fresh_world_def sp_has_def)
  show ?thesis
    using absent
      trySetFromURL_absent_key [OF absent, of 0 "''tags''" None True
        "cache ''tags'' ''tags=p&tags=q'' fresh_world"]
      trySetFromURL_absent_key [OF absent, of 0 "''x''" None True
        "cache ''tags'' ''tags=p&tags=q'' fresh_world"]
    by (simp add: fresh_world_def cache_def isArray_def)
qed

subsection \<open>C10: disposal removes the parameters from the address\<close>

text \<open>
  C10. Disposing a live binding calls \<^verbatim>\<open>globals.delete\<close> for every parameter it owns, in
  order. Each call makes one \<^verbatim>\<open>replaceState\<close> navigation that removes that parameter from
  the address, whatever history mode its handler was configured with, and afterwards
  nothing is left of the parameter: no handler, no cache entry, no debounce entry.
\<close>

theorem dispose_removes_with_replace:
  assumes "setupComplete w" and "b < length (bindings w)" and "\<not> disposed (bindings w ! b)"
  shows "navigations (dispose b w)
           = navigations w @ removal_commits (map snd (paramByKey (bindings w ! b))) (location w) \<and>
         map fst (removal_commits (map snd (paramByKey (bindings w ! b))) (location w))
           = replicate (length (paramByKey (bindings w ! b))) Replace \<and>
         list_all (\<lambda>p. released p (dispose b w)) (map snd (paramByKey (bindings w ! b)))"
proof -
  let ?ps = "map snd (paramByKey (bindings w ! b))"
  let ?w1 = "map_binding b (\<lambda>x. x\<lparr> disposed := True \<rparr>) w"
  have sc: "setupComplete ?w1" using assms by (simp add: map_binding_def)
  have d: "dispose b w = map_binding b (\<lambda>x. x\<lparr> paramByKey := [], listening := False \<rparr>)
                           (delete_all ?ps ?w1)"
    using assms by (simp add: dispose_def)
  have nav: "navigations (dispose b w) = navigations w @ removal_commits ?ps (location w)"
    unfolding d using delete_all_frame [OF sc, of ?ps] by (simp add: map_binding_def)
  have modes: "map fst (removal_commits ps url) = replicate (length ps) Replace" for ps url
    by (induction ps arbitrary: url) simp_all
  have "released p (dispose b w)" if "p \<in> set ?ps" for p
    unfolding d released_map_binding using delete_all_releases [OF sc that] .
  then show ?thesis using nav modes [of ?ps "location w"] by (simp add: list_all_iff)
qed

theorem dispose_removes_with_replace_witness:
  "setupComplete bound_world \<and> 0 < length (bindings bound_world) \<and>
   \<not> disposed (bindings bound_world ! 0) \<and>
   history (the (handlerByParam bound_world ''a_x'')) = Push \<and>
   navigations (dispose 0 bound_world)
     = [(Replace, [(''page'', ''2''), (''a_q'', ''2'')]), (Replace, [(''page'', ''2'')])] \<and>
   released ''a_x'' (dispose 0 bound_world) \<and> released ''a_q'' (dispose 0 bound_world)"
proof -
  have pre: "setupComplete bound_world" "0 < length (bindings bound_world)"
    "\<not> disposed (bindings bound_world ! 0)"
    by (simp_all add: bound_world_def)
  have mode: "history (the (handlerByParam bound_world ''a_x'')) = Push"
    by (simp add: bound_world_def verbosify_def verbose_of_def text_handler_def
          prefix_options_def option_field_def nullish3_def)
  show ?thesis
    using pre mode dispose_removes_with_replace [OF pre]
    by (simp add: bound_world_def sp_delete_def)
qed

subsection \<open>C6: one handler per key\<close>




subsection \<open>C5: a repeated write is suppressed\<close>




subsection \<open>C4: a write is not read back\<close>




subsection \<open>C3: the key of a bound field\<close>

text \<open>
  C3. At binding time \<^verbatim>\<open>verbosify\<close> resolves the key as the claim says: the field \<^verbatim>\<open>y\<close> with
  the explicit key \<^verbatim>\<open>q\<close> under the prefix \<^verbatim>\<open>a_\<close> gets \<^verbatim>\<open>a_q\<close>. On a prefix change
  \<^verbatim>\<open>updatePrefix\<close> computes \<^verbatim>\<open>validParam(prefix + key)\<close> from the field name: after the change
  to \<^verbatim>\<open>b_\<close> the field is bound under \<^verbatim>\<open>b_y\<close>, not \<^verbatim>\<open>b_q\<close>.
\<close>

theorem explicit_key_lost_on_prefix_change:
  "key (verbosify (Verbose (text_handler (Some ''q''))) ''y'' (Some (prefix_options ''a_''))) = ''a_q'' \<and>
   paramByKey (bindings bound_world ! 0) = [(''x'', ''a_x''), (''y'', ''a_q'')] \<and>
   paramByKey (bindings (fst (updatePrefix 0 ''b_'' bound_world)) ! 0)
     = [(''x'', ''b_x''), (''y'', ''b_y'')]"
proof -
  have k: "key (verbosify (Verbose (text_handler (Some ''q''))) ''y'' (Some (prefix_options ''a_'')))
             = ''a_q''"
    by (simp add: verbosify_def verbose_of_def text_handler_def prefix_options_def
          resolve_getter_def option_field_def valid_lowercase)
  have "paramByKey (bindings (fst (updatePrefix 0 ''b_'' bound_world)) ! 0)
          = map (\<lambda>kp. (fst kp, new_key ''b_'' kp)) (paramByKey (bindings bound_world ! 0))"
    by (rule updatePrefix_frame(3)) (rule bound_world_ready)+
  then show ?thesis
    using k by (simp add: bound_world_ready(3) new_key_def valid_lowercase)
qed

subsection \<open>C2: the max-wait timer\<close>

text \<open>
  C2. \<^verbatim>\<open>enqueue\<close> clears both timers of the key and arms both again, so the max-wait timer
  is postponed by every call. In the burst of seven calls no callback has run by time
  200, which is \<^verbatim>\<open>maxWaitMs\<close> after the first call; after the last call the timers are due
  at 230 (idle) and 380 (max-wait, counted from the last call), and the one invocation
  comes at 230 from the idle timer.
\<close>

theorem max_wait_timer_is_rearmed:
  "map_sum id (\<lambda>s. (fst (run_until 200 s), fst (run_until 230 s), pending (snd s)))
     (run_script seven_enqueues ([], idle_debouncer))
   = Inr ([], [(230, 7)], [(12, 230, ''k''), (13, 380, ''k'')])"
  by (simp add: seven_enqueues_def idle_debouncer_def enqueue_def clear_def clearTimeout_def
        setTimeout_def run_until.simps next_due_def fire_def flush_def ValidateConfig_def
        timeout_delay_def to_int32_def upt_rec invoked_at_def)

subsection \<open>C1: the commits of a prefix change\<close>

text \<open>
  C1. \<^verbatim>\<open>updatePrefix\<close> collects the new keys and writes them with one batched
  \<^verbatim>\<open>trySetURLParams\<close>, but it removes each old key through \<^verbatim>\<open>globals.delete\<close>, which commits a
  navigation of its own and notifies the listeners. Changing the prefix of the two bound
  fields from \<^verbatim>\<open>a_\<close> to \<^verbatim>\<open>b_\<close> makes three history calls, and after the second the address
  holds neither the old pair of keys nor the new one. The notification of a removal finds
  the key of the field absent and truncates a list field before \<^verbatim>\<open>parameterize\<close> reads it:
  the list \<^verbatim>\<open>["p", "q"]\<close> bound under \<^verbatim>\<open>a_tags\<close> is empty after the change to \<^verbatim>\<open>b_\<close>, and
  \<^verbatim>\<open>b_tags\<close> is never written to the address.
\<close>

theorem prefix_change_is_not_atomic:
  "navigations bound_world = [] \<and>
   length (navigations (fst (updatePrefix 0 ''b_'' bound_world))) = 3 \<and>
   take 2 (navigations (fst (updatePrefix 0 ''b_'' bound_world)))
     = [(Replace, [(''page'', ''2''), (''a_q'', ''2'')]), (Replace, [(''page'', ''2'')])] \<and>
   location tagged_world = [(''a_tags'', ''p''), (''a_tags'', ''q'')] \<and>
   objects tagged_world 0 ''tags'' = JArr [Some (JStr ''p''), Some (JStr ''q'')] \<and>
   snd (updatePrefix 0 ''b_'' tagged_world) = None \<and>
   paramByKey (bindings (fst (updatePrefix 0 ''b_'' tagged_world)) ! 0) = [(''tags'', ''b_tags'')] \<and>
   navigations (fst (updatePrefix 0 ''b_'' tagged_world)) = [(Replace, []), (Replace, [])] \<and>
   location (fst (updatePrefix 0 ''b_'' tagged_world)) = [] \<and>
   objects (fst (updatePrefix 0 ''b_'' tagged_world)) 0 ''tags'' = JArr []"
proof -
  have "navigations (fst (updatePrefix 0 ''b_'' bound_world))
          = navigations bound_world
              @ removal_commits (map snd (paramByKey (bindings bound_world ! 0))) (location bound_world)
              @ [(Replace, location (fst (updatePrefix 0 ''b_'' bound_world)))]"
    by (rule updatePrefix_frame(2)) (rule bound_world_ready)+
  moreover have "navigations bound_world = []"
    "location bound_world = [(''page'', ''2''), (''a_x'', ''1''), (''a_q'', ''2'')]"
    by (simp_all add: bound_world_def)
  ultimately have two_fields:
    "navigations bound_world = [] \<and>
     length (navigations (fst (updatePrefix 0 ''b_'' bound_world))) = 3 \<and>
     take 2 (navigations (fst (updatePrefix 0 ''b_'' bound_world)))
       = [(Replace, [(''page'', ''2''), (''a_q'', ''2'')]), (Replace, [(''page'', ''2'')])]"
    by (simp add: bound_world_ready(3) sp_delete_def)
  have "location tagged_world = [(''a_tags'', ''p''), (''a_tags'', ''q'')]"
    by (simp add: tagged_world_def)
  then show ?thesis using two_fields tagged_world_renamed by simp
qed

subsection \<open>C7: legacy keys\<close>

text \<open>
  C7. \<^verbatim>\<open>tryProcessHistoricalKeys\<close> hydrates the field from the legacy key with the handler's own
  pipeline and then commits the removals, one batch per history mode. The navigation of a
  removal notifies the listener of the binding itself, whose \<^verbatim>\<open>paramByKey\<close> already maps the
  field to its new key; the new key is not in the address, so \<^verbatim>\<open>trySetFromURL\<close> takes the
  field's key for absent. A field that is not an array is left alone and keeps the legacy
  value: \<^verbatim>\<open>hello\<close> holds \<^verbatim>\<open>"hi"\<close> after the migration from \<^verbatim>\<open>?greeting=hi\<close>. A list field is
  truncated: from \<^verbatim>\<open>?labels=a&labels=b\<close> the loop hydrates \<^verbatim>\<open>tags\<close> to \<^verbatim>\<open>["a", "b"]\<close>, and when
  \<^verbatim>\<open>tryProcessHistoricalKeys\<close> returns the field is empty and the legacy key is gone from the
  address.
\<close>

theorem legacy_list_is_hydrated_then_emptied:
  "location legacy_world = [(''greeting'', ''hi'')] \<and>
   snd (tryProcessHistoricalKeys 0 ''hello'' legacy_handler (getURLState (location legacy_world))
          legacy_world) = None \<and>
   navigations (fst (tryProcessHistoricalKeys 0 ''hello'' legacy_handler
                       (getURLState (location legacy_world)) legacy_world)) = [(Replace, [])] \<and>
   objects (fst (tryProcessHistoricalKeys 0 ''hello'' legacy_handler
                   (getURLState (location legacy_world)) legacy_world)) 0 ''hello'' = JStr ''hi'' \<and>
   location labels_world = [(''labels'', ''a''), (''labels'', ''b'')] \<and>
   objects (fst (snd (historical_loop 0 ''tags'' labels_handler (getURLState (location labels_world))
                        [labels_key] [] [] labels_world))) 0 ''tags''
     = JArr [Some (JStr ''a''), Some (JStr ''b'')] \<and>
   snd (tryProcessHistoricalKeys 0 ''tags'' labels_handler (getURLState (location labels_world))
          labels_world) = None \<and>
   navigations (fst (tryProcessHistoricalKeys 0 ''tags'' labels_handler
                       (getURLState (location labels_world)) labels_world)) = [(Replace, [])] \<and>
   objects (fst (tryProcessHistoricalKeys 0 ''tags'' labels_handler
                   (getURLState (location labels_world)) labels_world)) 0 ''tags'' = JArr []"
proof -
  have "location legacy_world = [(''greeting'', ''hi'')]"
    "location labels_world = [(''labels'', ''a''), (''labels'', ''b'')]"
    by (simp_all add: legacy_world_def labels_world_def)
  then show ?thesis using legacy_world_migrated labels_world_migrated by simp
qed

subsection \<open>C9: the round trip of the default handler\<close>




end
